theory Spec2Isabelle
  imports Complex_Main
begin

section \<open>Python values shared by the modules\<close>

text \<open>
  Strings are lists of code points below 256. Exceptions are values: the class
  that an \<open>except\<close> clause matches on, and the message \<open>str(e)\<close>.
  \<open>RequestException\<close> stands for \<open>requests.RequestException\<close> and all its
  subclasses (connection errors, timeouts, HTTP status errors, broken streams).
\<close>

datatype exc_class =
    AudioDownloadError
  | ValidationError
  | RequestException
  | ValueError
  | RuntimeError
  | FileNotFoundError
  | KeyError
  | IndexError
  | TypeError
  | FloatingPointError
  | LibraryError

datatype exn = Exn exc_class string

fun exn_class :: "exn \<Rightarrow> exc_class" where
  "exn_class (Exn k m) = k"

fun exn_str :: "exn \<Rightarrow> string" where
  "exn_str (Exn k m) = m"

text \<open>\<open>s.startswith(p)\<close> and \<open>p in s\<close> on strings.\<close>

fun startswith :: "string \<Rightarrow> string \<Rightarrow> bool" where
  "startswith s [] = True"
| "startswith [] (p # ps) = False"
| "startswith (c # cs) (p # ps) = (c = p \<and> startswith cs ps)"

fun str_in :: "string \<Rightarrow> string \<Rightarrow> bool" where
  "str_in p [] = (p = [])"
| "str_in p (c # cs) = (startswith (c # cs) p \<or> str_in p cs)"

text \<open>\<open>str.lower()\<close> on code points below 256: the ASCII capitals and the
  Latin-1 capitals (192 to 222 without the multiplication sign 215) move up by 32.\<close>

definition lower_char :: "char \<Rightarrow> char" where
  "lower_char c =
     (let n = (of_char c :: nat)
      in if (65 \<le> n \<and> n \<le> 90) \<or> (192 \<le> n \<and> n \<le> 222 \<and> n \<noteq> 215)
         then char_of (n + 32) else c)"

definition py_lower :: "string \<Rightarrow> string" where
  "py_lower s = map lower_char s"

section \<open>utils/validation.py\<close>

subsection \<open>urllib.parse.urlparse: scheme and netloc\<close>

text \<open>
  \<open>validate_url\<close> reads two fields of \<open>urlparse(url)\<close>: \<open>scheme\<close> and \<open>netloc\<close>.
  The standard library is not part of the repository; \<open>urlparse\<close> below follows
  CPython's \<open>urlsplit\<close> for these two fields: leading C0 control characters and
  spaces are stripped, tab, CR and LF are removed, a scheme is the text before the
  first colon when that text starts with an ASCII letter and consists of scheme
  characters (it is lowercased), and the netloc is what follows \<open>//\<close> up to the
  first of \<open>/\<close>, \<open>?\<close>, \<open>#\<close>. A netloc with one square bracket but not the other
  raises \<open>ValueError\<close>. The library's further checks of a bracketed host and of a
  non-ASCII host are not modelled. \<open>validate_url_with\<close> takes the parser as a
  parameter, and \<open>validate_url\<close> is its instance at \<open>urlparse\<close>.
\<close>

definition is_ascii_alpha :: "char \<Rightarrow> bool" where
  "is_ascii_alpha c =
     (let n = (of_char c :: nat) in (65 \<le> n \<and> n \<le> 90) \<or> (97 \<le> n \<and> n \<le> 122))"

definition is_scheme_char :: "char \<Rightarrow> bool" where
  "is_scheme_char c =
     (let n = (of_char c :: nat)
      in (65 \<le> n \<and> n \<le> 90) \<or> (97 \<le> n \<and> n \<le> 122) \<or> (48 \<le> n \<and> n \<le> 57)
         \<or> c = CHR ''+'' \<or> c = CHR ''-'' \<or> c = CHR ''.'')"

definition lstrip_c0 :: "string \<Rightarrow> string" where
  "lstrip_c0 s = dropWhile (\<lambda>c. (of_char c :: nat) \<le> 32) s"

definition remove_unsafe :: "string \<Rightarrow> string" where
  "remove_unsafe s = filter (\<lambda>c. c \<noteq> CHR 0x09 \<and> c \<noteq> CHR 0x0D \<and> c \<noteq> CHR 0x0A) s"

definition urlsplit_scheme :: "string \<Rightarrow> string \<times> string" where
  "urlsplit_scheme url =
     (let pre = takeWhile (\<lambda>c. c \<noteq> CHR '':'') url
      in if CHR '':'' \<in> set url \<and> pre \<noteq> [] \<and> is_ascii_alpha (hd url)
            \<and> list_all is_scheme_char pre
         then (py_lower pre, drop (length pre + 1) url)
         else ([], url))"

definition splitnetloc :: "string \<Rightarrow> string" where
  "splitnetloc url =
     takeWhile (\<lambda>c. c \<noteq> CHR ''/'' \<and> c \<noteq> CHR ''?'' \<and> c \<noteq> CHR ''#'') (drop 2 url)"

definition urlparse :: "string \<Rightarrow> exn + (string \<times> string)" where
  "urlparse url0 =
     (let url = remove_unsafe (lstrip_c0 url0);
          scheme = fst (urlsplit_scheme url);
          rest = snd (urlsplit_scheme url)
      in if take 2 rest = ''//''
         then (let netloc = splitnetloc rest
               in if (CHR ''['' \<in> set netloc \<and> CHR '']'' \<notin> set netloc)
                     \<or> (CHR '']'' \<in> set netloc \<and> CHR ''['' \<notin> set netloc)
                  then Inl (Exn ValueError ''Invalid IPv6 URL'')
                  else Inr (scheme, netloc))
         else Inr (scheme, []))"

subsection \<open>InputValidator.validate_url\<close>

definition dangerous_patterns :: "string list" where
  "dangerous_patterns =
     [''localhost'', ''127.0.0.1'', ''0.0.0.0'', ''192.168.'', ''10.'', ''172.16.'',
      ''file://'', ''ftp://'']"

text \<open>The body of the \<open>try\<close> block: parse, then the two format checks.\<close>

definition check_url_format :: "(string \<Rightarrow> exn + (string \<times> string)) \<Rightarrow> string \<Rightarrow> exn + unit" where
  "check_url_format parse url =
     (case parse url of
        Inl e \<Rightarrow> Inl e
      | Inr (scheme, netloc) \<Rightarrow>
          if scheme = [] \<or> netloc = []
          then Inl (Exn ValidationError ''Invalid URL format'')
          else if scheme \<noteq> ''http'' \<and> scheme \<noteq> ''https''
          then Inl (Exn ValidationError ''URL must use HTTP or HTTPS protocol'')
          else Inr ())"

text \<open>
  \<open>except Exception as e\<close> around the block turns every exception, the two
  \<open>ValidationError\<close>s raised inside it included, into
  \<open>ValidationError("Invalid URL: " + str(e))\<close>. The blocklist loop then looks for each
  pattern in the lowercased URL string as a whole.
\<close>

definition validate_url_with :: "(string \<Rightarrow> exn + (string \<times> string)) \<Rightarrow> string \<Rightarrow> exn + bool" where
  "validate_url_with parse url =
     (if url = [] then Inl (Exn ValidationError ''URL must be a non-empty string'')
      else case check_url_format parse url of
             Inl e \<Rightarrow> Inl (Exn ValidationError (''Invalid URL: '' @ exn_str e))
           | Inr u \<Rightarrow>
               if list_ex (\<lambda>p. str_in p (py_lower url)) dangerous_patterns
               then Inl (Exn ValidationError ''Security: Cannot access local/internal resources'')
               else Inr True)"

definition validate_url :: "string \<Rightarrow> exn + bool" where
  "validate_url url = validate_url_with urlparse url"

section \<open>utils/audio_utils.py\<close>

subsection \<open>The world outside the process\<close>

text \<open>
  The temporary directory is a map from paths to the number of bytes written to the
  file at that path; \<open>fetched\<close> lists the URLs that \<open>requests.get\<close> was called on,
  oldest first. A reply to \<open>requests.get(url, stream=True)\<close> is an exception of the
  call itself, an error status (raised by \<open>raise_for_status\<close>), or a body: the
  sequence of what \<open>iter_content\<close> yields, each a chunk of some number of bytes or
  an exception of the broken stream. All three exceptions are \<open>RequestException\<close>s.
  \<open>temp_name\<close> is the path built from the MD5 of the URL and the time;
  \<open>librosa_load\<close> is \<open>librosa.load(path, sr=16000, mono=True, duration=60)\<close>, its
  samples as reals, or the exception it raises.
\<close>

record world =
  files :: "string \<Rightarrow> nat option"
  fetched :: "string list"

datatype stream_event = Chunk nat | StreamError string

datatype http_reply =
    ConnectionFailed string
  | BadStatus string
  | Body "stream_event list"

record io_env =
  http_get :: "string \<Rightarrow> http_reply"
  temp_name :: "string \<Rightarrow> string"
  librosa_load :: "string \<Rightarrow> exn + real list"

definition MAX_FILE_SIZE :: nat where
  "MAX_FILE_SIZE = 50 * 1024 * 1024"

definition TARGET_SAMPLE_RATE :: nat where
  "TARGET_SAMPLE_RATE = 16000"

text \<open>\<open>open(path, 'wb')\<close> creates or truncates the file; \<open>f.write(chunk)\<close> appends;
  \<open>os.remove\<close> raises \<open>FileNotFoundError\<close> when the file is not there.\<close>

definition open_wb :: "string \<Rightarrow> world \<Rightarrow> world" where
  "open_wb path w = w\<lparr>files := (files w)(path \<mapsto> 0)\<rparr>"

definition f_write :: "string \<Rightarrow> nat \<Rightarrow> world \<Rightarrow> world" where
  "f_write path n w =
     w\<lparr>files := (files w)(path \<mapsto> (case files w path of None \<Rightarrow> n | Some k \<Rightarrow> k + n))\<rparr>"

definition os_remove :: "string \<Rightarrow> world \<Rightarrow> exn + world" where
  "os_remove path w =
     (case files w path of
        None \<Rightarrow> Inl (Exn FileNotFoundError (''[Errno 2] No such file or directory: '' @ path))
      | Some k \<Rightarrow> Inr (w\<lparr>files := (files w)(path := None)\<rparr>))"

subsection \<open>AudioProcessor.download_audio\<close>

text \<open>
  The loop over \<open>response.iter_content(chunk_size=8192)\<close>, with the running
  \<open>total_size\<close>. An empty chunk is skipped (\<open>if chunk:\<close>). The chunk that takes the
  total over the limit is not written: the file is removed and
  \<open>AudioDownloadError\<close> is raised. An exception of the stream leaves the loop at
  once, and nothing on that path touches the file.
\<close>

fun write_chunks :: "stream_event list \<Rightarrow> nat \<Rightarrow> string \<Rightarrow> world \<Rightarrow> (exn + nat) \<times> world" where
  "write_chunks [] total_size path w = (Inr total_size, w)"
| "write_chunks (StreamError m # rest) total_size path w = (Inl (Exn RequestException m), w)"
| "write_chunks (Chunk n # rest) total_size path w =
     (if n = 0 then write_chunks rest total_size path w
      else if total_size + n > MAX_FILE_SIZE
      then (case os_remove path w of
              Inl e \<Rightarrow> (Inl e, w)
            | Inr w' \<Rightarrow> (Inl (Exn AudioDownloadError ''File too large: exceeds 50.0MB limit''), w'))
      else write_chunks rest (total_size + n) path (f_write path n w))"

text \<open>The body of the \<open>try\<close> block, from \<open>requests.get\<close> to \<open>return temp_path\<close>. The
  content-type test of the source has an empty branch and no effect.\<close>

definition download_body :: "io_env \<Rightarrow> string \<Rightarrow> world \<Rightarrow> (exn + string) \<times> world" where
  "download_body env url w =
     (let temp_path = temp_name env url;
          w1 = w\<lparr>fetched := fetched w @ [url]\<rparr>
      in case http_get env url of
           ConnectionFailed m \<Rightarrow> (Inl (Exn RequestException m), w1)
         | BadStatus m \<Rightarrow> (Inl (Exn RequestException m), w1)
         | Body evs \<Rightarrow>
             (case write_chunks evs 0 temp_path (open_wb temp_path w1) of
                (Inl e, w2) \<Rightarrow> (Inl e, w2)
              | (Inr total_size, w2) \<Rightarrow>
                  if total_size = 0
                  then (case os_remove temp_path w2 of
                          Inl e \<Rightarrow> (Inl e, w2)
                        | Inr w3 \<Rightarrow> (Inl (Exn AudioDownloadError ''Downloaded file is empty''), w3))
                  else (Inr temp_path, w2)))"

text \<open>The two \<open>except\<close> clauses: a \<open>RequestException\<close> becomes "Download failed",
  every other exception (the \<open>AudioDownloadError\<close>s raised inside the block
  included) becomes "Unexpected error during download".\<close>

fun download_handler :: "exn \<Rightarrow> exn" where
  "download_handler (Exn k m) =
     (if k = RequestException
      then Exn AudioDownloadError (''Download failed: '' @ m)
      else Exn AudioDownloadError (''Unexpected error during download: '' @ m))"

definition download_audio :: "io_env \<Rightarrow> string \<Rightarrow> world \<Rightarrow> (exn + string) \<times> world" where
  "download_audio env url w =
     (if \<not> (startswith url ''http://'' \<or> startswith url ''https://'')
      then (Inl (Exn AudioDownloadError ''Invalid URL: must use http or https protocol''), w)
      else case download_body env url w of
             (Inl e, w') \<Rightarrow> (Inl (download_handler e), w')
           | (Inr temp_path, w') \<Rightarrow> (Inr temp_path, w'))"

subsection \<open>AudioProcessor._normalize_audio\<close>

text \<open>
  \<open>np.abs(audio).max()\<close> raises \<open>ValueError\<close> on an empty array. numpy's division
  by zero gives \<open>inf\<close> or \<open>nan\<close> with a warning; the reals have neither, so the model
  makes a division by zero an error value, which \<open>_normalize_audio\<close> then has to
  avoid. Samples are reals: rounding of the floating-point division is not modelled.
\<close>

definition np_max :: "real list \<Rightarrow> exn + real" where
  "np_max xs =
     (case xs of
        [] \<Rightarrow> Inl (Exn ValueError ''zero-size array to reduction operation maximum which has no identity'')
      | x # rest \<Rightarrow> Inr (fold max rest x))"

definition np_min :: "real list \<Rightarrow> exn + real" where
  "np_min xs =
     (case xs of
        [] \<Rightarrow> Inl (Exn ValueError ''zero-size array to reduction operation minimum which has no identity'')
      | x # rest \<Rightarrow> Inr (fold min rest x))"

definition np_divide :: "real list \<Rightarrow> real \<Rightarrow> exn + real list" where
  "np_divide xs d =
     (if d = 0 then Inl (Exn FloatingPointError ''divide by zero encountered in divide'')
      else Inr (map (\<lambda>x. x / d) xs))"

definition normalize_audio :: "real list \<Rightarrow> exn + real list" where
  "normalize_audio audio =
     (case np_max (map abs audio) of
        Inl e \<Rightarrow> Inl e
      | Inr max_val \<Rightarrow> if max_val > 0 then np_divide audio max_val else Inr audio)"

subsection \<open>AudioProcessor.load_and_preprocess\<close>

definition load_body :: "io_env \<Rightarrow> string \<Rightarrow> exn + (real list \<times> nat)" where
  "load_body env file_path =
     (case librosa_load env file_path of
        Inl e \<Rightarrow> Inl e
      | Inr audio \<Rightarrow>
          (let sr = TARGET_SAMPLE_RATE
           in if length audio = 0
              then Inl (Exn AudioDownloadError ''Audio file is empty or corrupted'')
              else if real (length audio) < real sr * 0.5
              then Inl (Exn AudioDownloadError ''Audio too short: minimum 0.5 seconds required'')
              else (case normalize_audio audio of
                      Inl e \<Rightarrow> Inl e
                    | Inr normalized \<Rightarrow> Inr (normalized, sr))))"

text \<open>\<open>except Exception as e: raise AudioDownloadError("Failed to load audio: ...")\<close>
  wraps every exception of the block, its own two included.\<close>

definition load_and_preprocess :: "io_env \<Rightarrow> string \<Rightarrow> exn + (real list \<times> nat)" where
  "load_and_preprocess env file_path =
     (case load_body env file_path of
        Inl e \<Rightarrow> Inl (Exn AudioDownloadError (''Failed to load audio: '' @ exn_str e))
      | Inr r \<Rightarrow> Inr r)"

subsection \<open>AudioProcessor.cleanup and process_audio_from_url\<close>

text \<open>\<open>cleanup\<close> removes the file when it exists and swallows every exception.\<close>

definition cleanup :: "string \<Rightarrow> world \<Rightarrow> world" where
  "cleanup file_path w =
     (if files w file_path \<noteq> None
      then (case os_remove file_path w of Inl e \<Rightarrow> w | Inr w' \<Rightarrow> w')
      else w)"

text \<open>\<open>temp_path\<close> is bound only when \<open>download_audio\<close> returns: when it raises,
  \<open>temp_path\<close> is still \<open>None\<close> and the handler cleans nothing up.\<close>

definition process_audio_from_url ::
  "io_env \<Rightarrow> string \<Rightarrow> world \<Rightarrow> (exn + (real list \<times> nat \<times> string)) \<times> world" where
  "process_audio_from_url env url w =
     (case download_audio env url w of
        (Inl e, w1) \<Rightarrow> (Inl e, w1)
      | (Inr temp_path, w1) \<Rightarrow>
          (case load_and_preprocess env temp_path of
             Inl e \<Rightarrow> (Inl e, cleanup temp_path w1)
           | Inr (audio, sr) \<Rightarrow> (Inr (audio, sr, temp_path), w1)))"

section \<open>utils/feature_extractor.py\<close>

text \<open>
  librosa's six feature functions are outside the repository: they are parameters,
  each returning a matrix as its list of rows (one row per coefficient, one column
  per analysis frame). Their arguments are the ones the source passes.
\<close>

record FeatureExtractor =
  n_mfcc :: nat
  n_fft :: nat
  hop_length :: nat
  n_mels :: nat

definition default_extractor :: FeatureExtractor where
  "default_extractor = \<lparr>n_mfcc = 13, n_fft = 2048, hop_length = 512, n_mels = 128\<rparr>"

record librosa_feature =
  mfcc :: "real list \<Rightarrow> nat \<Rightarrow> nat \<Rightarrow> nat \<Rightarrow> nat \<Rightarrow> real list list"
  spectral_centroid :: "real list \<Rightarrow> nat \<Rightarrow> nat \<Rightarrow> nat \<Rightarrow> real list list"
  spectral_rolloff :: "real list \<Rightarrow> nat \<Rightarrow> nat \<Rightarrow> nat \<Rightarrow> real list list"
  zero_crossing_rate :: "real list \<Rightarrow> nat \<Rightarrow> nat \<Rightarrow> real list list"
  spectral_bandwidth :: "real list \<Rightarrow> nat \<Rightarrow> nat \<Rightarrow> nat \<Rightarrow> real list list"
  chroma_stft :: "real list \<Rightarrow> nat \<Rightarrow> nat \<Rightarrow> nat \<Rightarrow> real list list"

subsection \<open>FeatureExtractor._compute_statistics\<close>

text \<open>\<open>np.mean\<close> and \<open>np.std\<close> (the population standard deviation) of an empty
  row give \<open>nan\<close> with a warning; \<open>np.min\<close>, evaluated next, raises \<open>ValueError\<close>.\<close>

definition np_mean :: "real list \<Rightarrow> real" where
  "np_mean xs = sum_list xs / real (length xs)"

definition np_std :: "real list \<Rightarrow> real" where
  "np_std xs = sqrt (np_mean (map (\<lambda>x. (abs (x - np_mean xs))\<^sup>2) xs))"

definition row_statistics :: "real list \<Rightarrow> exn + real list" where
  "row_statistics row =
     (case np_min row of
        Inl e \<Rightarrow> Inl e
      | Inr mn \<Rightarrow>
          (case np_max row of
             Inl e \<Rightarrow> Inl e
           | Inr mx \<Rightarrow> Inr [np_mean row, np_std row, mn, mx]))"

fun compute_statistics :: "real list list \<Rightarrow> exn + real list" where
  "compute_statistics [] = Inr []"
| "compute_statistics (row # rows) =
     (case row_statistics row of
        Inl e \<Rightarrow> Inl e
      | Inr stats \<Rightarrow>
          (case compute_statistics rows of
             Inl e \<Rightarrow> Inl e
           | Inr more_stats \<Rightarrow> Inr (stats @ more_stats)))"

subsection \<open>FeatureExtractor.extract_features\<close>

definition extract_features ::
  "FeatureExtractor \<Rightarrow> librosa_feature \<Rightarrow> real list \<Rightarrow> nat \<Rightarrow> exn + real list" where
  "extract_features fe lib audio sr =
     (case compute_statistics (mfcc lib audio sr (n_mfcc fe) (n_fft fe) (hop_length fe)) of
        Inl e \<Rightarrow> Inl e
      | Inr f1 \<Rightarrow>
     (case compute_statistics (spectral_centroid lib audio sr (n_fft fe) (hop_length fe)) of
        Inl e \<Rightarrow> Inl e
      | Inr f2 \<Rightarrow>
     (case compute_statistics (spectral_rolloff lib audio sr (n_fft fe) (hop_length fe)) of
        Inl e \<Rightarrow> Inl e
      | Inr f3 \<Rightarrow>
     (case compute_statistics (zero_crossing_rate lib audio (n_fft fe) (hop_length fe)) of
        Inl e \<Rightarrow> Inl e
      | Inr f4 \<Rightarrow>
     (case compute_statistics (spectral_bandwidth lib audio sr (n_fft fe) (hop_length fe)) of
        Inl e \<Rightarrow> Inl e
      | Inr f5 \<Rightarrow>
     (case compute_statistics (chroma_stft lib audio sr (n_fft fe) (hop_length fe)) of
        Inl e \<Rightarrow> Inl e
      | Inr f6 \<Rightarrow> Inr (f1 @ f2 @ f3 @ f4 @ f5 @ f6)))))))"

subsection \<open>FeatureExtractor.get_feature_names\<close>

text \<open>\<open>str_nat\<close> is the decimal text of a number, as an f-string prints it.\<close>

fun str_nat :: "nat \<Rightarrow> string" where
  "str_nat n =
     (if n < 10 then [char_of (48 + n)]
      else str_nat (n div 10) @ [char_of (48 + n mod 10)])"

declare str_nat.simps [simp del]

definition stat_names :: "string \<Rightarrow> string list" where
  "stat_names base = [base @ ''_mean'', base @ ''_std'', base @ ''_min'', base @ ''_max'']"

definition get_feature_names :: "FeatureExtractor \<Rightarrow> string list" where
  "get_feature_names fe =
     concat (map (\<lambda>i. stat_names (''mfcc_'' @ str_nat i)) [0..<n_mfcc fe])
     @ concat (map stat_names
         [''spectral_centroid'', ''spectral_rolloff'', ''zero_crossing_rate'', ''spectral_bandwidth''])
     @ concat (map (\<lambda>i. stat_names (''chroma_'' @ str_nat i)) [0..<12])"

text \<open>
  The layout in the specification's words: the rows in the order 13 MFCC, spectral
  centroid, spectral rolloff, zero-crossing rate, spectral bandwidth, 12 chroma
  bins; for every row the statistics mean, std, min, max.
  librosa's contract is the shape of what it returns: that many rows per feature,
  and one column per frame, \<open>1 + len(y) // hop_length\<close> of them.
\<close>

definition spec_row_names :: "string list" where
  "spec_row_names =
     [''mfcc_0'', ''mfcc_1'', ''mfcc_2'', ''mfcc_3'', ''mfcc_4'', ''mfcc_5'', ''mfcc_6'',
      ''mfcc_7'', ''mfcc_8'', ''mfcc_9'', ''mfcc_10'', ''mfcc_11'', ''mfcc_12'',
      ''spectral_centroid'', ''spectral_rolloff'', ''zero_crossing_rate'', ''spectral_bandwidth'',
      ''chroma_0'', ''chroma_1'', ''chroma_2'', ''chroma_3'', ''chroma_4'', ''chroma_5'',
      ''chroma_6'', ''chroma_7'', ''chroma_8'', ''chroma_9'', ''chroma_10'', ''chroma_11'']"

definition spec_stat_suffixes :: "string list" where
  "spec_stat_suffixes = [''_mean'', ''_std'', ''_min'', ''_max'']"

definition spec_stat :: "nat \<Rightarrow> real list \<Rightarrow> real" where
  "spec_stat k row =
     (if k = 0 then np_mean row
      else if k = 1 then np_std row
      else if k = 2 then Min (set row)
      else Max (set row))"

definition all_rows :: "FeatureExtractor \<Rightarrow> librosa_feature \<Rightarrow> real list \<Rightarrow> nat \<Rightarrow> real list list" where
  "all_rows fe lib audio sr =
     mfcc lib audio sr (n_mfcc fe) (n_fft fe) (hop_length fe)
     @ spectral_centroid lib audio sr (n_fft fe) (hop_length fe)
     @ spectral_rolloff lib audio sr (n_fft fe) (hop_length fe)
     @ zero_crossing_rate lib audio (n_fft fe) (hop_length fe)
     @ spectral_bandwidth lib audio sr (n_fft fe) (hop_length fe)
     @ chroma_stft lib audio sr (n_fft fe) (hop_length fe)"

definition frames_ok :: "nat \<Rightarrow> real list list \<Rightarrow> bool" where
  "frames_ok n_frames rows = list_all (\<lambda>row. length row = n_frames) rows"

definition librosa_shapes :: "FeatureExtractor \<Rightarrow> librosa_feature \<Rightarrow> real list \<Rightarrow> nat \<Rightarrow> bool" where
  "librosa_shapes fe lib audio sr =
     (length (mfcc lib audio sr (n_mfcc fe) (n_fft fe) (hop_length fe)) = n_mfcc fe
      \<and> length (spectral_centroid lib audio sr (n_fft fe) (hop_length fe)) = 1
      \<and> length (spectral_rolloff lib audio sr (n_fft fe) (hop_length fe)) = 1
      \<and> length (zero_crossing_rate lib audio (n_fft fe) (hop_length fe)) = 1
      \<and> length (spectral_bandwidth lib audio sr (n_fft fe) (hop_length fe)) = 1
      \<and> length (chroma_stft lib audio sr (n_fft fe) (hop_length fe)) = 12
      \<and> frames_ok (1 + length audio div hop_length fe) (all_rows fe lib audio sr))"

section \<open>model/classifier.py\<close>

text \<open>
  The forest is a value of a type \<open>'m\<close>; scikit-learn's \<open>predict\<close> and
  \<open>predict_proba\<close> (the first row of each, for the one sample passed) are
  parameters and may raise. The four attributes of a \<open>VoiceClassifier\<close> are the
  fields of a record; \<open>new_classifier\<close> is \<open>__init__\<close>, given the fresh forest.
\<close>

record 'm VoiceClassifier =
  model :: 'm
  feature_names :: "string list option"
  class_names :: "string list"
  trained :: bool

record 'm sklearn =
  rf_predict :: "'m \<Rightarrow> real list \<Rightarrow> exn + nat"
  rf_predict_proba :: "'m \<Rightarrow> real list \<Rightarrow> exn + real list"

definition new_classifier :: "'m \<Rightarrow> 'm VoiceClassifier" where
  "new_classifier fresh =
     \<lparr>model = fresh, feature_names = None, class_names = [''HUMAN'', ''AI_GENERATED''],
      trained = False\<rparr>"

definition py_index :: "'a list \<Rightarrow> nat \<Rightarrow> exn + 'a" where
  "py_index xs i =
     (if i < length xs then Inr (xs ! i) else Inl (Exn IndexError ''list index out of range''))"

subsection \<open>VoiceClassifier.predict\<close>

definition VoiceClassifier_predict ::
  "'m sklearn \<Rightarrow> 'm VoiceClassifier \<Rightarrow> real list \<Rightarrow> exn + (string \<times> real)" where
  "VoiceClassifier_predict sk c features =
     (if \<not> trained c
      then Inl (Exn RuntimeError ''Model not trained. Load a trained model first.'')
      else (case rf_predict sk (model c) features of
              Inl e \<Rightarrow> Inl e
            | Inr prediction \<Rightarrow>
          (case rf_predict_proba sk (model c) features of
              Inl e \<Rightarrow> Inl e
            | Inr probabilities \<Rightarrow>
          (case py_index (class_names c) prediction of
              Inl e \<Rightarrow> Inl e
            | Inr lbl \<Rightarrow>
          (case py_index probabilities prediction of
              Inl e \<Rightarrow> Inl e
            | Inr conf \<Rightarrow> Inr (lbl, conf))))))"

subsection \<open>VoiceClassifier.save_model and load_model\<close>

text \<open>
  \<open>model_data\<close> is a dictionary from key strings to Python values. \<open>joblib.dump\<close>
  and \<open>joblib.load\<close> are parameters: \<open>dump\<close> turns the dictionary into the stored
  artifact, \<open>load\<close> reads an artifact back or raises. The model store maps a path
  to the artifact at it. Python binds what \<open>load_model\<close> reads to the attributes
  unchecked; the record's fields are typed, so here an entry of the wrong kind is
  a \<open>TypeError\<close> at the assignment.
\<close>

datatype 'm pyval = PModel 'm | PStrList "string list" | PNone | PBool bool

type_synonym 'm model_data = "string \<Rightarrow> 'm pyval option"

definition dict_get :: "'m model_data \<Rightarrow> string \<Rightarrow> exn + 'm pyval" where
  "dict_get d k =
     (case d k of
        None \<Rightarrow> Inl (Exn KeyError ([CHR 0x27] @ k @ [CHR 0x27]))
      | Some v \<Rightarrow> Inr v)"

fun as_model :: "'m pyval \<Rightarrow> exn + 'm" where
  "as_model (PModel m) = Inr m"
| "as_model v = Inl (Exn TypeError ''model'')"

fun as_names :: "'m pyval \<Rightarrow> exn + string list option" where
  "as_names PNone = Inr None"
| "as_names (PStrList l) = Inr (Some l)"
| "as_names v = Inl (Exn TypeError ''feature_names'')"

fun as_classes :: "'m pyval \<Rightarrow> exn + string list" where
  "as_classes (PStrList l) = Inr l"
| "as_classes v = Inl (Exn TypeError ''class_names'')"

fun as_bool :: "'m pyval \<Rightarrow> exn + bool" where
  "as_bool (PBool b) = Inr b"
| "as_bool v = Inl (Exn TypeError ''trained'')"

definition model_data_of :: "'m VoiceClassifier \<Rightarrow> 'm model_data" where
  "model_data_of c =
     [''model'' \<mapsto> PModel (model c),
      ''feature_names'' \<mapsto> (case feature_names c of None \<Rightarrow> PNone | Some l \<Rightarrow> PStrList l),
      ''class_names'' \<mapsto> PStrList (class_names c),
      ''trained'' \<mapsto> PBool (trained c)]"

definition save_model ::
  "('m model_data \<Rightarrow> 'b) \<Rightarrow> 'm VoiceClassifier \<Rightarrow> string \<Rightarrow> (string \<Rightarrow> 'b option)
     \<Rightarrow> exn + (string \<Rightarrow> 'b option)" where
  "save_model dump c model_path store =
     (if \<not> trained c then Inl (Exn RuntimeError ''Cannot save untrained model'')
      else Inr (store(model_path \<mapsto> dump (model_data_of c))))"

definition load_model ::
  "('b \<Rightarrow> exn + 'm model_data) \<Rightarrow> 'm \<Rightarrow> string \<Rightarrow> (string \<Rightarrow> 'b option)
     \<Rightarrow> exn + 'm VoiceClassifier" where
  "load_model load fresh model_path store =
     (case store model_path of
        None \<Rightarrow> Inl (Exn FileNotFoundError (''Model file not found: '' @ model_path))
      | Some artifact \<Rightarrow>
     (case load artifact of
        Inl e \<Rightarrow> Inl e
      | Inr md \<Rightarrow>
     (case dict_get md ''model'' of Inl e \<Rightarrow> Inl e | Inr v1 \<Rightarrow>
     (case as_model v1 of Inl e \<Rightarrow> Inl e | Inr m \<Rightarrow>
     (case dict_get md ''feature_names'' of Inl e \<Rightarrow> Inl e | Inr v2 \<Rightarrow>
     (case as_names v2 of Inl e \<Rightarrow> Inl e | Inr fnames \<Rightarrow>
     (case dict_get md ''class_names'' of Inl e \<Rightarrow> Inl e | Inr v3 \<Rightarrow>
     (case as_classes v3 of Inl e \<Rightarrow> Inl e | Inr cnames \<Rightarrow>
     (case dict_get md ''trained'' of Inl e \<Rightarrow> Inl e | Inr v4 \<Rightarrow>
     (case as_bool v4 of Inl e \<Rightarrow> Inl e | Inr t \<Rightarrow>
        Inr ((new_classifier fresh)
               \<lparr>model := m, feature_names := fnames, class_names := cnames, trained := t\<rparr>)
     ))))))))))"

section \<open>model/inference.py\<close>

record prediction_result =
  label :: string
  confidence :: real
  language :: string
  fraud_risk_explanation :: string
  processing_time_ms :: int
  status :: string

record 'm InferenceEngine =
  engine_model :: "'m VoiceClassifier"
  feature_extractor :: FeatureExtractor

text \<open>\<open>round(x, 4)\<close> rounds to four decimals, ties to the even neighbour;
  \<open>int(x)\<close> truncates towards zero. Both are taken on the reals.\<close>

definition round_half_even :: "real \<Rightarrow> int" where
  "round_half_even x =
     (let f = \<lfloor>x\<rfloor>; r = x - of_int f
      in if r < 1 / 2 then f else if r > 1 / 2 then f + 1 else if even f then f else f + 1)"

definition py_round :: "real \<Rightarrow> nat \<Rightarrow> real" where
  "py_round x ndigits = of_int (round_half_even (x * 10 ^ ndigits)) / 10 ^ ndigits"

definition py_int :: "real \<Rightarrow> int" where
  "py_int x = (if x \<ge> 0 then \<lfloor>x\<rfloor> else \<lceil>x\<rceil>)"

subsection \<open>LanguageDetector.detect_language (utils/validation.py)\<close>

definition detect_language :: "string \<Rightarrow> string" where
  "detect_language audio_path =
     (let path_lower = py_lower audio_path
      in if list_ex (\<lambda>i. str_in i path_lower) [''hindi'', ''hi_'', ''_hi'', ''hin''] then ''Hindi''
         else if list_ex (\<lambda>i. str_in i path_lower) [''english'', ''en_'', ''_en'', ''eng'']
         then ''English''
         else ''Unknown'')"

subsection \<open>InferenceEngine._generate_explanation\<close>

definition generate_explanation :: "string \<Rightarrow> real \<Rightarrow> string" where
  "generate_explanation lbl conf =
     (if lbl = ''AI_GENERATED'' then
        (if conf > 0.85 then
           ''High confidence AI-generated voice detected. '' @
           ''Spectral patterns show synthetic characteristics. '' @
           ''Recommend additional verification for fraud prevention.''
         else if conf > 0.65 then
           ''Likely AI-generated voice with moderate confidence. '' @
           ''Some synthetic markers detected. '' @
           ''Proceed with caution in sensitive contexts.''
         else
           ''Possible AI-generated voice with low confidence. '' @
           ''Mixed signals detected. '' @
           ''Consider secondary verification methods.'')
      else
        (if conf > 0.85 then
           ''High confidence human voice detected. '' @
           ''Natural acoustic patterns consistent with human speech. '' @
           ''Low fraud risk based on audio analysis.''
         else if conf > 0.65 then
           ''Likely human voice with moderate confidence. '' @
           ''Predominantly natural speech characteristics. '' @
           ''Standard verification recommended.''
         else
           ''Possible human voice with low confidence. '' @
           ''Ambiguous acoustic features. '' @
           ''Additional verification recommended for high-stakes decisions.''))"

subsection \<open>InferenceEngine.predict\<close>

text \<open>
  Steps 2 to 5 of the \<open>try\<close> block, which run once \<open>process_audio_from_url\<close> has
  returned: features, the classifier's raw label and confidence, the safety
  threshold on the label, the language, the explanation, the result dictionary.
  \<open>clock\<close> holds the two readings of \<open>time.time()\<close>.
\<close>

definition predict_steps ::
  "librosa_feature \<Rightarrow> 'm sklearn \<Rightarrow> real \<times> real \<Rightarrow> 'm InferenceEngine
     \<Rightarrow> real list \<Rightarrow> nat \<Rightarrow> string \<Rightarrow> exn + prediction_result" where
  "predict_steps lib sk clock eng audio sr temp_path =
     (case extract_features (feature_extractor eng) lib audio sr of
        Inl e \<Rightarrow> Inl e
      | Inr features \<Rightarrow>
     (case VoiceClassifier_predict sk (engine_model eng) features of
        Inl e \<Rightarrow> Inl e
      | Inr (lbl0, conf) \<Rightarrow>
          (let lbl = (if lbl0 = ''AI_GENERATED'' \<and> conf < 0.85 then ''HUMAN'' else lbl0);
               lang = detect_language temp_path;
               fraud_explanation = generate_explanation lbl conf;
               processing_time = py_int ((snd clock - fst clock) * 1000)
           in Inr \<lparr>label = lbl, confidence = py_round conf 4, language = lang,
                   fraud_risk_explanation = fraud_explanation,
                   processing_time_ms = processing_time, status = ''success''\<rparr>)))"

text \<open>The \<open>finally\<close> clause runs \<open>cleanup(temp_path)\<close> when \<open>temp_path\<close> is bound:
  that is, when \<open>process_audio_from_url\<close> returned.\<close>

definition InferenceEngine_predict ::
  "io_env \<Rightarrow> librosa_feature \<Rightarrow> 'm sklearn \<Rightarrow> real \<times> real \<Rightarrow> 'm InferenceEngine
     \<Rightarrow> string \<Rightarrow> world \<Rightarrow> (exn + prediction_result) \<times> world" where
  "InferenceEngine_predict env lib sk clock eng audio_url w =
     (case process_audio_from_url env audio_url w of
        (Inl e, w1) \<Rightarrow> (Inl e, w1)
      | (Inr (audio, sr, temp_path), w1) \<Rightarrow>
          (predict_steps lib sk clock eng audio sr temp_path, cleanup temp_path w1))"

section \<open>app/api.py: predict_voice\<close>

text \<open>
  The handler's body, its dependencies (API key, loaded engine) resolved. The three
  \<open>except\<close> clauses map an exception to an \<open>HTTPException\<close> (status code, error
  name, detail); the elapsed time in the detail is left out. \<open>PredictionResponse\<close>
  requires \<open>0 \<le> confidence \<le> 1\<close>; a result outside is pydantic's own validation
  error, which the last clause reports as a server fault.
\<close>

datatype http_response =
    Response prediction_result
  | HTTPException nat string string

fun api_handler :: "exn \<Rightarrow> http_response" where
  "api_handler (Exn k m) =
     (if k = ValidationError then HTTPException 400 ''ValidationError'' m
      else if k = AudioDownloadError then HTTPException 400 ''AudioDownloadError'' m
      else HTTPException 500 ''InternalServerError'' (''Unexpected error: '' @ m))"

definition predict_voice ::
  "io_env \<Rightarrow> librosa_feature \<Rightarrow> 'm sklearn \<Rightarrow> real \<times> real \<Rightarrow> 'm InferenceEngine
     \<Rightarrow> string \<Rightarrow> world \<Rightarrow> http_response \<times> world" where
  "predict_voice env lib sk clock eng audio_url w =
     (case validate_url audio_url of
        Inl e \<Rightarrow> (api_handler e, w)
      | Inr ok \<Rightarrow>
          (case InferenceEngine_predict env lib sk clock eng audio_url w of
             (Inl e, w') \<Rightarrow> (api_handler e, w')
           | (Inr result, w') \<Rightarrow>
               if 0 \<le> confidence result \<and> confidence result \<le> 1
               then (Response result, w')
               else (HTTPException 500 ''InternalServerError''
                       ''Unexpected error: 1 validation error for PredictionResponse'', w')))"

section \<open>Example inputs\<close>

text \<open>
  Concrete collaborators on which the theorems below are instantiated: a server
  that answers every request with the given stream, a decoder that returns the given
  samples, feature functions that return all-zero matrices of librosa's shapes, and
  a forest that votes for class 1 (\<open>AI_GENERATED\<close>) with the given probability.
\<close>

definition ex_url :: string where
  "ex_url = ''http://example.com/a.mp3''"

definition ex_path :: string where
  "ex_path = ''/tmp/audio_0.tmp''"

definition ex_world :: world where
  "ex_world = \<lparr>files = (\<lambda>p. None), fetched = []\<rparr>"

definition ex_env :: "stream_event list \<Rightarrow> real list \<Rightarrow> io_env" where
  "ex_env evs samples =
     \<lparr>http_get = (\<lambda>u. Body evs), temp_name = (\<lambda>u. ex_path),
      librosa_load = (\<lambda>p. Inr samples)\<rparr>"

definition ex_lib :: librosa_feature where
  "ex_lib =
     \<lparr>mfcc = (\<lambda>y sr n f h. replicate n (replicate (1 + length y div h) 0)),
      spectral_centroid = (\<lambda>y sr f h. [replicate (1 + length y div h) 0]),
      spectral_rolloff = (\<lambda>y sr f h. [replicate (1 + length y div h) 0]),
      zero_crossing_rate = (\<lambda>y f h. [replicate (1 + length y div h) 0]),
      spectral_bandwidth = (\<lambda>y sr f h. [replicate (1 + length y div h) 0]),
      chroma_stft = (\<lambda>y sr f h. replicate 12 (replicate (1 + length y div h) 0))\<rparr>"

definition ex_sk :: "real \<Rightarrow> unit sklearn" where
  "ex_sk p = \<lparr>rf_predict = (\<lambda>m x. Inr 1), rf_predict_proba = (\<lambda>m x. Inr [1 - p, p])\<rparr>"

definition ex_classifier :: "unit VoiceClassifier" where
  "ex_classifier =
     \<lparr>model = (), feature_names = Some (get_feature_names default_extractor),
      class_names = [''HUMAN'', ''AI_GENERATED''], trained = True\<rparr>"

definition ex_engine :: "unit InferenceEngine" where
  "ex_engine = \<lparr>engine_model = ex_classifier, feature_extractor = default_extractor\<rparr>"


section \<open>Properties\<close>

subsection \<open>Strings\<close>

lemma startswith_iff: "startswith s p \<longleftrightarrow> (\<exists>r. s = p @ r)"
  by (induction s p rule: startswith.induct) auto

lemma str_in_iff: "str_in p s \<longleftrightarrow> (\<exists>a b. s = a @ p @ b)"
proof (induction s)
  case Nil
  then show ?case by simp
next
  case (Cons c cs)
  show ?case
  proof
    assume "str_in p (c # cs)"
    then consider "startswith (c # cs) p" | "str_in p cs" by auto
    then show "\<exists>a b. c # cs = a @ p @ b"
    proof cases
      case 1
      then obtain r where "c # cs = p @ r" by (auto simp: startswith_iff)
      then have "c # cs = [] @ p @ r" by simp
      then show ?thesis by blast
    next
      case 2
      then obtain a b where "cs = a @ p @ b" using Cons.IH by auto
      then have "c # cs = (c # a) @ p @ b" by simp
      then show ?thesis by blast
    qed
  next
    assume "\<exists>a b. c # cs = a @ p @ b"
    then obtain a b where ab: "c # cs = a @ p @ b" by blast
    show "str_in p (c # cs)"
    proof (cases a)
      case Nil
      then have "startswith (c # cs) p" using ab by (auto simp: startswith_iff)
      then show ?thesis by simp
    next
      case (Cons x a')
      then have "cs = a' @ p @ b" using ab by simp
      then have "str_in p cs" using Cons.IH by blast
      then show ?thesis by simp
    qed
  qed
qed

subsection \<open>numpy reductions and normalization\<close>

lemma np_max_eq: "xs \<noteq> [] \<Longrightarrow> np_max xs = Inr (Max (set xs))"
proof (cases xs)
  case Nil
  assume "xs \<noteq> []"
  with Nil show ?thesis by simp
next
  case (Cons a rest)
  show ?thesis unfolding np_max_def Cons using Max.set_eq_fold[of a rest] by simp
qed

lemma np_min_eq: "xs \<noteq> [] \<Longrightarrow> np_min xs = Inr (Min (set xs))"
proof (cases xs)
  case Nil
  assume "xs \<noteq> []"
  with Nil show ?thesis by simp
next
  case (Cons a rest)
  show ?thesis unfolding np_min_def Cons using Min.set_eq_fold[of a rest] by simp
qed

lemma max_abs_pos_iff:
  assumes "audio \<noteq> []"
  shows "Max (set (map abs audio)) > (0::real) \<longleftrightarrow> (\<exists>x\<in>set audio. x \<noteq> 0)"
proof -
  have fin: "finite (set (map abs audio))" and ne: "set (map abs audio) \<noteq> {}"
    using assms by auto
  have "Max (set (map abs audio)) > 0 \<longleftrightarrow> (\<exists>a\<in>set (map abs audio). a > 0)"
    using Max_gr_iff[OF fin ne] by simp
  also have "\<dots> \<longleftrightarrow> (\<exists>x\<in>set audio. x \<noteq> 0)" by auto
  finally show ?thesis .
qed

lemma normalize_nonempty:
  assumes "audio \<noteq> []"
  shows "normalize_audio audio =
           (if \<exists>x\<in>set audio. x \<noteq> 0
            then Inr (map (\<lambda>x. x / Max (set (map abs audio))) audio)
            else Inr audio)"
proof -
  have m: "np_max (map abs audio) = Inr (Max (set (map abs audio)))"
    using assms by (simp add: np_max_eq)
  show ?thesis
    using max_abs_pos_iff[OF assms]
    by (auto simp: normalize_audio_def m np_divide_def)
qed

lemma normalized_in_range:
  fixes audio :: "real list"
  assumes "x \<in> set audio" and "Max (set (map abs audio)) > 0"
  shows "- 1 \<le> x / Max (set (map abs audio)) \<and> x / Max (set (map abs audio)) \<le> 1"
proof -
  define M where "M = Max (set (map abs audio))"
  have "abs x \<in> set (map abs audio)" using assms(1) by auto
  then have le: "abs x \<le> M" unfolding M_def by (intro Max_ge) auto
  have pos: "0 < M" using assms(2) by (simp add: M_def)
  have "abs x / M \<le> 1" using le pos divide_le_eq_1_pos[of M "abs x"] by blast
  moreover have "abs (x / M) = abs x / M" using pos by (simp add: abs_divide)
  ultimately have "abs (x / M) \<le> 1" by (simp only:)
  then have "- 1 \<le> x / M \<and> x / M \<le> 1" using abs_le_iff[of "x / M" 1] by linarith
  then show ?thesis by (simp add: M_def)
qed

lemma normalize_error_only_empty:
  assumes "normalize_audio audio = Inl e"
  shows "audio = [] \<and> exn_class e = ValueError"
proof (cases "audio = []")
  case True
  then show ?thesis using assms by (auto simp: normalize_audio_def np_max_def)
next
  case False
  then show ?thesis using assms normalize_nonempty[OF False] by (simp split: if_splits)
qed

lemma normalize_replicate:
  assumes "0 < n" and "0 < c"
  shows "normalize_audio (replicate n c) = Inr (replicate n 1)"
proof -
  have ne: "replicate n c \<noteq> []" using assms(1) by simp
  have ex: "\<exists>x\<in>set (replicate n c). x \<noteq> 0" using assms by auto
  have mx: "Max (set (map abs (replicate n c))) = c" using assms by simp
  have "normalize_audio (replicate n c) = Inr (map (\<lambda>x. x / c) (replicate n c))"
    using normalize_nonempty[OF ne] ex mx by (simp only: if_True)
  then show ?thesis using assms(2) by simp
qed

subsection \<open>Statistics of feature matrices\<close>

lemma row_statistics_eq:
  "row \<noteq> [] \<Longrightarrow> row_statistics row = Inr (map (\<lambda>k. spec_stat k row) [0, 1, 2, 3])"
  by (simp add: row_statistics_def np_min_eq np_max_eq spec_stat_def)

lemma compute_statistics_eq:
  "list_all (\<lambda>row. row \<noteq> []) m \<Longrightarrow>
     compute_statistics m = Inr (concat (map (\<lambda>row. map (\<lambda>k. spec_stat k row) [0, 1, 2, 3]) m))"
  by (induction m) (simp_all add: row_statistics_eq)

lemma frames_ok_nonempty: "frames_ok (Suc n) rows \<Longrightarrow> list_all (\<lambda>row. row \<noteq> []) rows"
  by (induction rows) (auto simp: frames_ok_def)

lemma extract_features_eq:
  assumes "frames_ok (Suc n) (all_rows fe lib audio sr)"
  shows "extract_features fe lib audio sr
           = Inr (concat (map (\<lambda>row. map (\<lambda>k. spec_stat k row) [0, 1, 2, 3]) (all_rows fe lib audio sr)))"
proof -
  have "list_all (\<lambda>row. row \<noteq> []) (all_rows fe lib audio sr)"
    using assms by (rule frames_ok_nonempty)
  then show ?thesis
    by (simp add: all_rows_def extract_features_def compute_statistics_eq)
qed

lemma concat_map_nth4:
  assumes "\<And>x. length (f x) = 4" and "r < length xs" and "k < 4"
  shows "concat (map f xs) ! (4 * r + k) = f (xs ! r) ! k"
  using assms(2)
proof (induction xs arbitrary: r)
  case Nil
  then show ?case by simp
next
  case (Cons x xs)
  show ?case
  proof (cases r)
    case 0
    then show ?thesis using assms(1)[of x] assms(3) by (simp add: nth_append)
  next
    case (Suc r')
    then have "r' < length xs" using Cons.prems by simp
    then have "concat (map f xs) ! (4 * r' + k) = f (xs ! r') ! k" by (rule Cons.IH)
    moreover have "4 * r + k = length (f x) + (4 * r' + k)" using Suc assms(1)[of x] by simp
    ultimately show ?thesis using Suc by (simp add: nth_append)
  qed
qed

lemma length_concat_map4:
  assumes "\<And>x. length (f x) = 4"
  shows "length (concat (map f xs)) = 4 * length xs"
  by (induction xs) (simp_all add: assms)

lemma feature_names_eq:
  "get_feature_names default_extractor = concat (map stat_names spec_row_names)"
  by code_simp

lemma length_spec_row_names: "length spec_row_names = 29"
  by (simp add: spec_row_names_def)

lemma stat_names_nth: "k < 4 \<Longrightarrow> stat_names b ! k = b @ spec_stat_suffixes ! k"
proof -
  assume "k < 4"
  then consider "k = 0" | "k = 1" | "k = 2" | "k = 3" by linarith
  then show ?thesis
    by cases (simp_all add: stat_names_def spec_stat_suffixes_def)
qed

lemma stats_nth: "k < 4 \<Longrightarrow> map (\<lambda>k. spec_stat k row) [0, 1, 2, 3] ! k = spec_stat k row"
proof -
  assume "k < 4"
  then consider "k = 0" | "k = 1" | "k = 2" | "k = 3" by linarith
  then show ?thesis by cases simp_all
qed

lemma length_all_rows:
  "librosa_shapes default_extractor lib audio sr \<Longrightarrow>
     length (all_rows default_extractor lib audio sr) = 29"
  by (simp add: librosa_shapes_def all_rows_def default_extractor_def)

subsection \<open>The download loop\<close>

lemma write_chunks_within:
  assumes "tot + sum_list ns \<le> MAX_FILE_SIZE"
  shows "\<exists>w'. write_chunks (map Chunk ns) tot path w = (Inr (tot + sum_list ns), w')
           \<and> fetched w' = fetched w
           \<and> (\<forall>q. q \<noteq> path \<longrightarrow> files w' q = files w q)
           \<and> (files w path \<noteq> None \<longrightarrow> files w' path \<noteq> None)"
  using assms
proof (induction ns arbitrary: tot w)
  case Nil
  then show ?case by simp
next
  case (Cons a ns)
  show ?case
  proof (cases "a = 0")
    case True
    then show ?thesis using Cons.IH[of tot w] Cons.prems by simp
  next
    case False
    have le: "tot + a \<le> MAX_FILE_SIZE" using Cons.prems by simp
    have "(tot + a) + sum_list ns \<le> MAX_FILE_SIZE" using Cons.prems by simp
    from Cons.IH[OF this, of "f_write path a w"]
    show ?thesis using False le by (auto simp: f_write_def add.assoc)
  qed
qed

lemma write_chunks_over:
  assumes "files w path \<noteq> None"
    and "tot + sum_list ns \<le> MAX_FILE_SIZE"
    and "tot + sum_list ns + n > MAX_FILE_SIZE"
  shows "\<exists>w'. write_chunks (map Chunk ns @ Chunk n # rest) tot path w
                = (Inl (Exn AudioDownloadError ''File too large: exceeds 50.0MB limit''), w')
              \<and> files w' path = None
              \<and> (\<forall>q. q \<noteq> path \<longrightarrow> files w' q = files w q)
              \<and> fetched w' = fetched w"
  using assms
proof (induction ns arbitrary: tot w)
  case Nil
  then have "n \<noteq> 0" by auto
  then show ?case using Nil by (auto simp: os_remove_def)
next
  case (Cons a ns)
  show ?case
  proof (cases "a = 0")
    case True
    then show ?thesis using Cons.IH[of w tot] Cons.prems by simp
  next
    case False
    have le: "tot + a \<le> MAX_FILE_SIZE" using Cons.prems by simp
    have f: "files (f_write path a w) path \<noteq> None" by (simp add: f_write_def)
    have s1: "(tot + a) + sum_list ns \<le> MAX_FILE_SIZE" using Cons.prems by simp
    have s2: "(tot + a) + sum_list ns + n > MAX_FILE_SIZE" using Cons.prems by simp
    have st: "write_chunks (map Chunk (a # ns) @ Chunk n # rest) tot path w
            = write_chunks (map Chunk ns @ Chunk n # rest) (tot + a) path (f_write path a w)"
      using False le by simp
    from Cons.IH[OF f s1 s2] obtain w' where
      w': "write_chunks (map Chunk ns @ Chunk n # rest) (tot + a) path (f_write path a w)
             = (Inl (Exn AudioDownloadError ''File too large: exceeds 50.0MB limit''), w')"
        "files w' path = None"
        "\<forall>q. q \<noteq> path \<longrightarrow> files w' q = files (f_write path a w) q"
        "fetched w' = fetched (f_write path a w)"
      by blast
    have "\<forall>q. q \<noteq> path \<longrightarrow> files w' q = files w q" using w'(3) by (simp add: f_write_def)
    moreover have "fetched w' = fetched w" using w'(4) by (simp add: f_write_def)
    ultimately show ?thesis using st w'(1,2) by auto
  qed
qed

lemma world_eqI:
  fixes w' :: world
  assumes "files w' path = None" and "\<forall>q. q \<noteq> path \<longrightarrow> files w' q = files w q"
    and "fetched w' = fs"
  shows "w' = w\<lparr>files := (files w)(path := None), fetched := fs\<rparr>"
proof (rule world.equality)
  show "files w' = files (w\<lparr>files := (files w)(path := None), fetched := fs\<rparr>)"
    using assms(1,2) by (auto simp: fun_eq_iff)
  show "fetched w' = fetched (w\<lparr>files := (files w)(path := None), fetched := fs\<rparr>)"
    using assms(3) by simp
  show "world.more w' = world.more (w\<lparr>files := (files w)(path := None), fetched := fs\<rparr>)"
    by simp
qed

subsection \<open>The example inputs evaluated\<close>

lemma ex_download:
  "download_audio (ex_env [Chunk 4096] samples) ex_url ex_world
     = (Inr ex_path, \<lparr>files = [ex_path \<mapsto> 4096], fetched = [ex_url]\<rparr>)"
  by (simp add: download_audio_def download_body_def ex_env_def ex_url_def ex_world_def
      open_wb_def f_write_def MAX_FILE_SIZE_def)

lemma ex_normalize: "normalize_audio (replicate 8000 (1 / 2)) = Inr (replicate 8000 1)"
  by (rule normalize_replicate) simp_all

lemma ex_process:
  "process_audio_from_url (ex_env [Chunk 4096] (replicate 8000 (1 / 2))) ex_url ex_world
     = (Inr (replicate 8000 1, 16000, ex_path), \<lparr>files = [ex_path \<mapsto> 4096], fetched = [ex_url]\<rparr>)"
  by (simp add: process_audio_from_url_def ex_download load_and_preprocess_def load_body_def
      ex_normalize TARGET_SAMPLE_RATE_def) (simp add: ex_env_def ex_normalize TARGET_SAMPLE_RATE_def)

lemma ex_classify:
  "VoiceClassifier_predict (ex_sk p) (engine_model ex_engine) feats = Inr (''AI_GENERATED'', p)"
  by (simp add: VoiceClassifier_predict_def ex_sk_def ex_engine_def ex_classifier_def py_index_def)

lemma ex_shapes: "librosa_shapes default_extractor ex_lib audio sr"
  by (simp add: librosa_shapes_def all_rows_def default_extractor_def ex_lib_def frames_ok_def
      list_all_iff)

lemma ex_extract: "\<exists>v. extract_features default_extractor ex_lib audio sr = Inr v"
proof -
  have "frames_ok (Suc (length audio div hop_length default_extractor))
          (all_rows default_extractor ex_lib audio sr)"
    using ex_shapes[of audio sr] by (simp add: librosa_shapes_def)
  then show ?thesis using extract_features_eq by blast
qed

subsection \<open>C1: the safety override\<close>

text \<open>
  Claim C1 (safety override). Once \<open>process_audio_from_url\<close> has returned, the
  features are extracted and the classifier has given a raw label and a raw
  confidence, \<open>InferenceEngine.predict\<close> returns a result. Its label is \<open>HUMAN\<close>
  when the raw label is \<open>AI_GENERATED\<close> and the raw confidence is strictly below
  0.85, and the raw label otherwise: \<open>AI_GENERATED\<close> stays at 0.85 and above. The
  confidence of the result is the raw confidence rounded to four decimals in both
  cases, and the explanation is chosen from the final label and the raw confidence:
  the threshold changes the label and nothing else. Confidences are reals; the
  binary value of the literal 0.85 is not modelled.
\<close>

theorem safety_override:
  assumes "process_audio_from_url env url w = (Inr (audio, sr, p), w1)"
    and "extract_features (feature_extractor eng) lib audio sr = Inr feats"
    and "VoiceClassifier_predict sk (engine_model eng) feats = Inr (raw_label, raw_conf)"
  shows "\<exists>r. InferenceEngine_predict env lib sk clock eng url w = (Inr r, cleanup p w1)
           \<and> label r = (if raw_label = ''AI_GENERATED'' \<and> raw_conf < 0.85 then ''HUMAN'' else raw_label)
           \<and> confidence r = py_round raw_conf 4
           \<and> fraud_risk_explanation r = generate_explanation (label r) raw_conf"
  using assms by (simp add: InferenceEngine_predict_def predict_steps_def Let_def)

theorem safety_override_witness:
  "(\<exists>r. InferenceEngine_predict (ex_env [Chunk 4096] (replicate 8000 (1 / 2))) ex_lib
           (ex_sk (7 / 10)) (0, 1) ex_engine ex_url ex_world
         = (Inr r, \<lparr>files = (\<lambda>p. None), fetched = [ex_url]\<rparr>)
       \<and> label r = ''HUMAN'' \<and> confidence r = 7 / 10)
   \<and> (\<exists>r. InferenceEngine_predict (ex_env [Chunk 4096] (replicate 8000 (1 / 2))) ex_lib
           (ex_sk (85 / 100)) (0, 1) ex_engine ex_url ex_world
         = (Inr r, \<lparr>files = (\<lambda>p. None), fetched = [ex_url]\<rparr>)
       \<and> label r = ''AI_GENERATED'' \<and> confidence r = 85 / 100)"
proof -
  obtain feats where f: "extract_features (feature_extractor ex_engine) ex_lib (replicate 8000 1) 16000 = Inr feats"
    using ex_extract[of "replicate 8000 1" 16000] by (auto simp: ex_engine_def)
  have c: "cleanup ex_path \<lparr>files = [ex_path \<mapsto> 4096], fetched = [ex_url]\<rparr>
             = \<lparr>files = (\<lambda>p. None), fetched = [ex_url]\<rparr>"
    by (simp add: cleanup_def os_remove_def)
  have r1: "py_round (7 / 10) 4 = 7 / 10" by (simp add: py_round_def round_half_even_def)
  have r2: "py_round (17 / 20) 4 = 17 / 20" by (simp add: py_round_def round_half_even_def)
  have a: "\<exists>r. InferenceEngine_predict (ex_env [Chunk 4096] (replicate 8000 (1 / 2))) ex_lib
           (ex_sk (7 / 10)) (0, 1) ex_engine ex_url ex_world
         = (Inr r, \<lparr>files = (\<lambda>p. None), fetched = [ex_url]\<rparr>)
       \<and> label r = ''HUMAN'' \<and> confidence r = 7 / 10"
    using safety_override[OF ex_process f ex_classify, of "7 / 10" "(0, 1)"]
    by (auto simp: c r1)
  have b: "\<exists>r. InferenceEngine_predict (ex_env [Chunk 4096] (replicate 8000 (1 / 2))) ex_lib
           (ex_sk (85 / 100)) (0, 1) ex_engine ex_url ex_world
         = (Inr r, \<lparr>files = (\<lambda>p. None), fetched = [ex_url]\<rparr>)
       \<and> label r = ''AI_GENERATED'' \<and> confidence r = 85 / 100"
    using safety_override[OF ex_process f ex_classify, of "85 / 100" "(0, 1)"]
    by (auto simp: c r2)
  show ?thesis using a b by (rule conjI)
qed

subsection \<open>C2: cleanup of the temporary file\<close>

text \<open>On every other path the file is gone when the request ends. \<open>cleanup\<close> leaves
  no file at the path; a stream that ends without an exception leaves the file
  only when \<open>download_audio\<close> returns its path, and then \<open>process_audio_from_url\<close>
  or the \<open>finally\<close> clause of \<open>predict\<close> calls \<open>cleanup\<close>.\<close>

lemma cleanup_removes: "files (cleanup p w) p = None"
  by (cases "files w p") (simp_all add: cleanup_def os_remove_def)

lemma write_chunks_file:
  assumes "files w p \<noteq> None"
  shows "case write_chunks (map Chunk ns) tot p w of
           (Inl e, w') \<Rightarrow> files w' p = None
         | (Inr t, w') \<Rightarrow> files w' p \<noteq> None"
  using assms
proof (induction ns arbitrary: tot w)
  case Nil
  then show ?case by simp
next
  case (Cons a ns)
  have f: "files (f_write p a w) p \<noteq> None" by (simp add: f_write_def)
  show ?case
    using Cons.IH[OF Cons.prems, of tot] Cons.IH[OF f, of "tot + a"] Cons.prems
    by (auto simp: os_remove_def)
qed

lemma download_body_file:
  assumes "http_get env url = Body (map Chunk ns)"
  shows "case download_body env url w of
           (Inl e, w') \<Rightarrow> files w' (temp_name env url) = None
         | (Inr p, w') \<Rightarrow> p = temp_name env url"
proof -
  let ?p = "temp_name env url"
  let ?w1 = "open_wb ?p (w\<lparr>fetched := fetched w @ [url]\<rparr>)"
  have f: "files ?w1 ?p \<noteq> None" by (simp add: open_wb_def)
  obtain r w2 where r: "write_chunks (map Chunk ns) 0 ?p ?w1 = (r, w2)" by (cases "write_chunks (map Chunk ns) 0 ?p ?w1")
  show ?thesis
    using write_chunks_file[OF f, of ns 0] r
    by (cases r) (auto simp: download_body_def assms Let_def os_remove_def)
qed

lemma predict_cleans_up:
  assumes "startswith url ''http://'' \<or> startswith url ''https://''"
    and "http_get env url = Body (map Chunk ns)"
  shows "files (snd (InferenceEngine_predict env lib sk clock eng url w)) (temp_name env url) = None"
proof -
  obtain r w1 where r: "download_body env url w = (r, w1)" by (cases "download_body env url w")
  show ?thesis
  proof (cases r)
    case (Inl e)
    then show ?thesis using download_body_file[OF assms(2), of w] r assms(1)
      by (simp add: InferenceEngine_predict_def process_audio_from_url_def download_audio_def)
  next
    case (Inr p)
    then have p: "p = temp_name env url" using download_body_file[OF assms(2), of w] r by simp
    show ?thesis
    proof (cases "load_and_preprocess env p")
      case (Inl e)
      then show ?thesis using r Inr p assms(1)
        by (simp add: InferenceEngine_predict_def process_audio_from_url_def download_audio_def
            cleanup_removes)
    next
      case (Inr a)
      then show ?thesis using r \<open>r = Inr p\<close> p assms(1)
        by (cases a) (simp add: InferenceEngine_predict_def process_audio_from_url_def
            download_audio_def cleanup_removes)
    qed
  qed
qed

text \<open>
  Claim C2 (cleanup on every exit path) fails on the code. A server sends 4096 bytes
  and then the connection breaks: \<open>iter_content\<close> raises inside \<open>download_audio\<close>
  after the file was opened and written. \<open>download_audio\<close> turns the exception into
  \<open>AudioDownloadError\<close> without removing the file; \<open>temp_path\<close> is not yet bound in
  \<open>process_audio_from_url\<close> nor in \<open>predict\<close>, so neither cleans up. The request
  ends with the 4096-byte file still in the temporary directory.
\<close>

theorem temp_file_left_after_stream_error:
  "InferenceEngine_predict
     (ex_env [Chunk 4096, StreamError ''Connection broken''] (replicate 8000 (1 / 2)))
     ex_lib (ex_sk (9 / 10)) (0, 1) ex_engine ex_url ex_world
   = (Inl (Exn AudioDownloadError ''Download failed: Connection broken''),
      \<lparr>files = [ex_path \<mapsto> 4096], fetched = [ex_url]\<rparr>)"
  by (simp add: InferenceEngine_predict_def process_audio_from_url_def download_audio_def
      download_body_def ex_env_def ex_url_def ex_world_def open_wb_def f_write_def
      MAX_FILE_SIZE_def)

subsection \<open>C3: the layout of the feature vector\<close>

text \<open>
  Claim C3, as the code has it. Under librosa's shape contract, \<open>extract_features\<close>
  of the default extractor returns a vector of length 116, \<open>get_feature_names\<close>
  returns 116 names, and both follow one layout: the rows in the order 13 MFCC,
  spectral centroid, spectral rolloff, zero-crossing rate, spectral bandwidth, 12
  chroma bins, and for row \<open>r\<close> the entries \<open>4r\<close> to \<open>4r+3\<close> are its mean, std,
  min and max. The rows are 29 in number (13 + 4 + 12), not 28: 28 rows of four
  statistics would give 112 entries.
\<close>

theorem feature_vector_layout:
  assumes "librosa_shapes default_extractor lib audio sr"
  shows "\<exists>v. extract_features default_extractor lib audio sr = Inr v
           \<and> length v = 116
           \<and> length (get_feature_names default_extractor) = 116
           \<and> length (all_rows default_extractor lib audio sr) = 29
           \<and> length spec_row_names = 29
           \<and> (\<forall>r k. r < 29 \<and> k < 4 \<longrightarrow>
                 get_feature_names default_extractor ! (4 * r + k)
                   = spec_row_names ! r @ spec_stat_suffixes ! k
                 \<and> v ! (4 * r + k) = spec_stat k (all_rows default_extractor lib audio sr ! r))"
proof -
  let ?rows = "all_rows default_extractor lib audio sr"
  let ?st = "\<lambda>row. map (\<lambda>k. spec_stat k row) [0, 1, 2, 3]"
  let ?v = "concat (map ?st ?rows)"
  have len: "length ?rows = 29" using assms by (rule length_all_rows)
  have fr: "frames_ok (Suc (length audio div hop_length default_extractor)) ?rows"
    using assms by (simp add: librosa_shapes_def)
  have ex: "extract_features default_extractor lib audio sr = Inr ?v"
    using fr by (rule extract_features_eq)
  have lv: "length ?v = 116"
    using length_concat_map4[of ?st ?rows] len by simp
  have ln: "length (get_feature_names default_extractor) = 116"
    using length_concat_map4[of stat_names spec_row_names]
    by (simp add: feature_names_eq length_spec_row_names stat_names_def)
  have nm: "get_feature_names default_extractor ! (4 * r + k)
              = spec_row_names ! r @ spec_stat_suffixes ! k" if "r < 29" "k < 4" for r k
  proof -
    have "concat (map stat_names spec_row_names) ! (4 * r + k) = stat_names (spec_row_names ! r) ! k"
      using that by (intro concat_map_nth4) (simp_all add: stat_names_def length_spec_row_names)
    then show ?thesis using that(2) by (simp add: feature_names_eq stat_names_nth)
  qed
  have vl: "?v ! (4 * r + k) = spec_stat k (?rows ! r)" if "r < 29" "k < 4" for r k
  proof -
    have "?v ! (4 * r + k) = ?st (?rows ! r) ! k"
      using that len by (intro concat_map_nth4) simp_all
    then show ?thesis using that(2) by (simp only: stats_nth)
  qed
  show ?thesis
    using ex lv ln len length_spec_row_names nm vl by blast
qed

theorem feature_vector_layout_witness:
  "\<exists>v. extract_features default_extractor ex_lib (replicate 8000 1) 16000 = Inr v
      \<and> length v = 116
      \<and> length (get_feature_names default_extractor) = 116
      \<and> get_feature_names default_extractor ! 54 = ''spectral_centroid_min''
      \<and> v ! 54 = spec_stat 2 (all_rows default_extractor ex_lib (replicate 8000 1) 16000 ! 13)
      \<and> get_feature_names default_extractor ! 115 = ''chroma_11_max''"
proof -
  obtain v where v: "extract_features default_extractor ex_lib (replicate 8000 1) 16000 = Inr v"
    "length v = 116" "length (get_feature_names default_extractor) = 116"
    "\<forall>r k. r < 29 \<and> k < 4 \<longrightarrow>
       get_feature_names default_extractor ! (4 * r + k) = spec_row_names ! r @ spec_stat_suffixes ! k
       \<and> v ! (4 * r + k) = spec_stat k (all_rows default_extractor ex_lib (replicate 8000 1) 16000 ! r)"
    using feature_vector_layout[OF ex_shapes, of "replicate 8000 1" 16000] by blast
  have a: "get_feature_names default_extractor ! 54 = ''spectral_centroid_min''
           \<and> v ! 54 = spec_stat 2 (all_rows default_extractor ex_lib (replicate 8000 1) 16000 ! 13)"
    using v(4)[rule_format, of 13 2] by (simp add: spec_row_names_def spec_stat_suffixes_def)
  have b: "get_feature_names default_extractor ! 115 = ''chroma_11_max''"
    using v(4)[rule_format, of 28 3] by (simp add: spec_row_names_def spec_stat_suffixes_def)
  show ?thesis using v(1,2,3) a b by blast
qed

text \<open>
  The row count of claim C3 as stated fails: no list of 28 row names, each with its
  four statistics, gives the names that \<open>get_feature_names\<close> returns.
\<close>

theorem feature_rows_not_28:
  "\<not> (\<exists>rows. length rows = 28 \<and> get_feature_names default_extractor = concat (map stat_names rows))"
proof
  assume "\<exists>rows. length rows = 28 \<and> get_feature_names default_extractor = concat (map stat_names rows)"
  then obtain rows where r: "length rows = 28"
    "get_feature_names default_extractor = concat (map stat_names rows)" by blast
  have "length (concat (map stat_names rows)) = 4 * length rows"
    by (rule length_concat_map4) (simp add: stat_names_def)
  then have "length (get_feature_names default_extractor) = 112" using r by simp
  moreover have "length (get_feature_names default_extractor) = 116"
    using length_concat_map4[of stat_names spec_row_names]
    by (simp add: feature_names_eq length_spec_row_names stat_names_def)
  ultimately show False by simp
qed

subsection \<open>C4: saving and loading the model\<close>

lemma load_model_data_of:
  assumes "store model_path = Some artifact" and "load artifact = Inr (model_data_of c)"
  shows "load_model load fresh model_path store = Inr c"
proof -
  have r: "(new_classifier fresh)
             \<lparr>model := model c, feature_names := feature_names c,
              class_names := class_names c, trained := trained c\<rparr> = c"
    by (simp add: new_classifier_def)
  show ?thesis
  proof (cases "feature_names c")
    case None
    then show ?thesis using assms r
      by (simp add: load_model_def dict_get_def model_data_of_def)
  next
    case (Some l)
    then show ?thesis using assms r
      by (simp add: load_model_def dict_get_def model_data_of_def)
  qed
qed

text \<open>
  Claim C4 (round-trip persistence). Let \<open>joblib.load\<close> give back the dictionary
  that \<open>joblib.dump\<close> stored for this classifier. Then for every trained
  classifier \<open>save_model\<close> succeeds, and \<open>load_model\<close> from the same path of the
  resulting store returns a classifier equal to the original in all four
  attributes: the feature names, the class names and the trained flag are the same,
  and \<open>predict\<close> returns the same label and the same confidence on every feature
  vector. The forest and scikit-learn's prediction functions are parameters, and
  confidences are reals, so "within floating-point tolerance" is equality here.
\<close>

theorem save_load_roundtrip:
  assumes "trained c"
    and "load (dump (model_data_of c)) = Inr (model_data_of c)"
  shows "\<exists>store' c'. save_model dump c model_path store = Inr store'
           \<and> load_model load fresh model_path store' = Inr c'
           \<and> c' = c
           \<and> feature_names c' = feature_names c
           \<and> class_names c' = class_names c
           \<and> trained c' = trained c
           \<and> (\<forall>x. VoiceClassifier_predict sk c' x = VoiceClassifier_predict sk c x)"
proof -
  let ?store' = "store(model_path \<mapsto> dump (model_data_of c))"
  have s: "save_model dump c model_path store = Inr ?store'"
    using assms(1) by (simp add: save_model_def)
  have l: "load_model load fresh model_path ?store' = Inr c"
    using load_model_data_of[of ?store' model_path "dump (model_data_of c)" load c fresh] assms(2)
    by simp
  show ?thesis using s l by simp
qed

theorem save_load_roundtrip_witness:
  "\<exists>store' c'. save_model (\<lambda>d. d) ex_classifier ''model/voice_model.pkl'' (\<lambda>p. None) = Inr store'
      \<and> load_model Inr () ''model/voice_model.pkl'' store' = Inr c'
      \<and> c' = ex_classifier
      \<and> trained c'
      \<and> class_names c' = [''HUMAN'', ''AI_GENERATED'']
      \<and> VoiceClassifier_predict (ex_sk (9 / 10)) c' [] = Inr (''AI_GENERATED'', 9 / 10)"
proof -
  have t: "trained ex_classifier" by (simp add: ex_classifier_def)
  have j: "Inr ((\<lambda>d. d) (model_data_of ex_classifier)) = (Inr (model_data_of ex_classifier) :: exn + unit model_data)"
    by simp
  have p: "VoiceClassifier_predict (ex_sk (9 / 10)) ex_classifier [] = Inr (''AI_GENERATED'', 9 / 10)"
    by (simp add: VoiceClassifier_predict_def ex_sk_def ex_classifier_def py_index_def)
  have c: "class_names ex_classifier = [''HUMAN'', ''AI_GENERATED'']"
    by (simp add: ex_classifier_def)
  show ?thesis
    using save_load_roundtrip[of ex_classifier Inr "\<lambda>d. d" "''model/voice_model.pkl''"
        "\<lambda>p. None" "()" "ex_sk (9 / 10)"] t j p c
    by auto
qed

text \<open>An untrained classifier is not saved, and a path with no artifact is not loaded.\<close>

lemma save_untrained:
  "\<not> trained c \<Longrightarrow>
     save_model dump c model_path store = Inl (Exn RuntimeError ''Cannot save untrained model'')"
  by (simp add: save_model_def)

lemma load_missing:
  "store model_path = None \<Longrightarrow>
     load_model load fresh model_path store
       = Inl (Exn FileNotFoundError (''Model file not found: '' @ model_path))"
  by (simp add: load_model_def)

subsection \<open>C5: the size limit of the download\<close>

text \<open>
  Claim C5 (streaming size limit). Let the server's stream start with chunks whose
  sizes sum to at most 50 MB and continue with a chunk that takes the sum over
  50 MB. Then \<open>download_audio\<close> raises \<open>AudioDownloadError\<close> ("File too large",
  wrapped by the outer handler), whatever follows in the stream (\<open>rest\<close> is never
  read), and the world it leaves has no file at the temporary path. Up to that
  chunk the loop did not abort: the chunks before it were written to the file.
\<close>

theorem download_size_limit:
  assumes "startswith url ''http://'' \<or> startswith url ''https://''"
    and "http_get env url = Body (map Chunk ns @ Chunk n # rest)"
    and "sum_list ns \<le> MAX_FILE_SIZE"
    and "sum_list ns + n > MAX_FILE_SIZE"
  shows "download_audio env url w
           = (Inl (Exn AudioDownloadError
                ''Unexpected error during download: File too large: exceeds 50.0MB limit''),
              w\<lparr>files := (files w)(temp_name env url := None), fetched := fetched w @ [url]\<rparr>)
         \<and> (\<exists>w'. write_chunks (map Chunk ns) 0 (temp_name env url)
                    (open_wb (temp_name env url) (w\<lparr>fetched := fetched w @ [url]\<rparr>))
                  = (Inr (sum_list ns), w')
                \<and> files w' (temp_name env url) \<noteq> None)"
proof -
  let ?p = "temp_name env url"
  let ?w1 = "open_wb ?p (w\<lparr>fetched := fetched w @ [url]\<rparr>)"
  have f: "files ?w1 ?p \<noteq> None" by (simp add: open_wb_def)
  have s1: "0 + sum_list ns \<le> MAX_FILE_SIZE" using assms(3) by simp
  have s2: "0 + sum_list ns + n > MAX_FILE_SIZE" using assms(4) by simp
  from write_chunks_over[OF f s1 s2, of rest] obtain w2 where
    w2: "write_chunks (map Chunk ns @ Chunk n # rest) 0 ?p ?w1
           = (Inl (Exn AudioDownloadError ''File too large: exceeds 50.0MB limit''), w2)"
      "files w2 ?p = None" "\<forall>q. q \<noteq> ?p \<longrightarrow> files w2 q = files ?w1 q"
      "fetched w2 = fetched ?w1"
    by blast
  have "\<forall>q. q \<noteq> ?p \<longrightarrow> files w2 q = files w q" using w2(3) by (simp add: open_wb_def)
  moreover have "fetched w2 = fetched w @ [url]" using w2(4) by (simp add: open_wb_def)
  ultimately have eq: "w2 = w\<lparr>files := (files w)(?p := None), fetched := fetched w @ [url]\<rparr>"
    using w2(2) by (intro world_eqI) simp_all
  have "download_body env url w
          = (Inl (Exn AudioDownloadError ''File too large: exceeds 50.0MB limit''), w2)"
    by (simp add: download_body_def assms(2) Let_def w2(1))
  then have a: "download_audio env url w
           = (Inl (Exn AudioDownloadError
                ''Unexpected error during download: File too large: exceeds 50.0MB limit''),
              w\<lparr>files := (files w)(temp_name env url := None), fetched := fetched w @ [url]\<rparr>)"
    using assms(1) eq by (simp add: download_audio_def)
  have b: "\<exists>w'. write_chunks (map Chunk ns) 0 ?p ?w1 = (Inr (sum_list ns), w')
                \<and> files w' ?p \<noteq> None"
    using write_chunks_within[OF s1, of ?p ?w1] f by auto
  show ?thesis using a b by blast
qed

theorem download_size_limit_witness:
  "download_audio
     (ex_env (map Chunk (replicate 6400 8192) @ Chunk 1 # [Chunk 8192, Chunk 8192]) [])
     ex_url ex_world
   = (Inl (Exn AudioDownloadError
        ''Unexpected error during download: File too large: exceeds 50.0MB limit''),
      \<lparr>files = (\<lambda>p. None), fetched = [ex_url]\<rparr>)"
proof -
  let ?env = "ex_env (map Chunk (replicate 6400 8192) @ Chunk 1 # [Chunk 8192, Chunk 8192]) []"
  have h1: "startswith ex_url ''http://'' \<or> startswith ex_url ''https://''"
    by (simp add: ex_url_def)
  have h2: "http_get ?env ex_url
              = Body (map Chunk (replicate 6400 8192) @ Chunk 1 # [Chunk 8192, Chunk 8192])"
    by (simp add: ex_env_def)
  have h3: "sum_list (replicate 6400 8192) \<le> MAX_FILE_SIZE"
    by (simp add: sum_list_replicate MAX_FILE_SIZE_def)
  have h4: "sum_list (replicate 6400 8192) + 1 > MAX_FILE_SIZE"
    by (simp add: sum_list_replicate MAX_FILE_SIZE_def)
  have t: "temp_name ?env ex_url = ex_path" by (simp add: ex_env_def)
  show ?thesis
    using download_size_limit[OF h1 h2 h3 h4, of ex_world]
    by (simp add: t ex_world_def)
qed

subsection \<open>C6: validation before acquisition\<close>

lemma validate_not_a_url:
  "validate_url ''not-a-valid-url''
     = Inl (Exn ValidationError ''Invalid URL: Invalid URL format'')"
  by code_simp

lemma validate_loopback:
  "validate_url ''http://127.0.0.1/x.mp3''
     = Inl (Exn ValidationError ''Security: Cannot access local/internal resources'')"
  by code_simp

lemma parse_loopback: "urlparse ''http://127.0.0.1/x.mp3'' = Inr (''http'', ''127.0.0.1'')"
  by code_simp

lemma predict_voice_invalid:
  "validate_url url = Inl e \<Longrightarrow> predict_voice env lib sk clock eng url w = (api_handler e, w)"
  by (simp add: predict_voice_def)

text \<open>
  Claim C6 (URL validation before acquisition). \<open>validate_url\<close> raises
  \<open>ValidationError\<close> for "not-a-valid-url" (no scheme and no host: "Invalid URL
  format") and for "http://127.0.0.1/x.mp3" (it parses, with host 127.0.0.1, and the
  blocklist rejects it). In \<open>predict_voice\<close> the validation comes first: for every
  URL that \<open>validate_url\<close> rejects, whatever the server, the decoder and the model
  are, the handler answers with the mapped exception and the world is unchanged, so
  no request was sent and no file written. For the two URLs the answer is status
  400 with error "ValidationError".
\<close>

theorem validate_url_rejects_before_acquisition:
  "validate_url ''not-a-valid-url''
     = Inl (Exn ValidationError ''Invalid URL: Invalid URL format'')
   \<and> urlparse ''http://127.0.0.1/x.mp3'' = Inr (''http'', ''127.0.0.1'')
   \<and> validate_url ''http://127.0.0.1/x.mp3''
     = Inl (Exn ValidationError ''Security: Cannot access local/internal resources'')
   \<and> (\<forall>e. validate_url url = Inl e \<longrightarrow>
          predict_voice env lib sk clock eng url w = (api_handler e, w))
   \<and> predict_voice env lib sk clock eng ''not-a-valid-url'' w
     = (HTTPException 400 ''ValidationError'' ''Invalid URL: Invalid URL format'', w)
   \<and> predict_voice env lib sk clock eng ''http://127.0.0.1/x.mp3'' w
     = (HTTPException 400 ''ValidationError''
          ''Security: Cannot access local/internal resources'', w)"
  using predict_voice_invalid[of _ _ env lib sk clock eng w]
  by (simp add: validate_not_a_url validate_loopback parse_loopback)

theorem validate_url_rejects_before_acquisition_witness:
  "validate_url ''ftp://example.com/a.mp3''
     = Inl (Exn ValidationError ''Invalid URL: URL must use HTTP or HTTPS protocol'')
   \<and> predict_voice (ex_env [Chunk 4096] (replicate 8000 (1 / 2))) ex_lib (ex_sk (9 / 10)) (0, 1)
       ex_engine ''ftp://example.com/a.mp3'' ex_world
     = (HTTPException 400 ''ValidationError''
          ''Invalid URL: URL must use HTTP or HTTPS protocol'', ex_world)
   \<and> predict_voice (ex_env [Chunk 4096] (replicate 8000 (1 / 2))) ex_lib (ex_sk (9 / 10)) (0, 1)
       ex_engine ''not-a-valid-url'' ex_world
     = (HTTPException 400 ''ValidationError'' ''Invalid URL: Invalid URL format'', ex_world)
   \<and> predict_voice (ex_env [Chunk 4096] (replicate 8000 (1 / 2))) ex_lib (ex_sk (9 / 10)) (0, 1)
       ex_engine ''http://127.0.0.1/x.mp3'' ex_world
     = (HTTPException 400 ''ValidationError''
          ''Security: Cannot access local/internal resources'', ex_world)"
proof -
  have v: "validate_url ''ftp://example.com/a.mp3''
     = Inl (Exn ValidationError ''Invalid URL: URL must use HTTP or HTTPS protocol'')"
    by code_simp
  show ?thesis
    using validate_url_rejects_before_acquisition[of "''ftp://example.com/a.mp3''"
        "ex_env [Chunk 4096] (replicate 8000 (1 / 2))" ex_lib "ex_sk (9 / 10)" "(0, 1)"
        ex_engine ex_world]
    by (simp add: v)
qed

subsection \<open>C7: audio that is too short\<close>

text \<open>
  Claim C7 (minimum length). When the decoder returns \<open>audio\<close> for the file:
  with no samples, \<open>load_and_preprocess\<close> raises \<open>AudioDownloadError\<close> ("Audio file
  is empty or corrupted", wrapped by the outer handler); with at least one sample
  but fewer than half a second at 16 kHz, it raises \<open>AudioDownloadError\<close> with a
  message that contains "Audio too short"; in both cases no waveform is returned,
  and \<open>process_audio_from_url\<close> fails with the same class after cleaning the
  downloaded file up.
\<close>

theorem load_and_preprocess_too_short:
  assumes "librosa_load env file_path = Inr audio"
  shows "(length audio = 0 \<longrightarrow>
            load_and_preprocess env file_path
              = Inl (Exn AudioDownloadError ''Failed to load audio: Audio file is empty or corrupted''))
       \<and> (0 < length audio \<and> real (length audio) < real TARGET_SAMPLE_RATE * 0.5 \<longrightarrow>
            load_and_preprocess env file_path
              = Inl (Exn AudioDownloadError
                  ''Failed to load audio: Audio too short: minimum 0.5 seconds required'')
            \<and> str_in ''Audio too short''
                  ''Failed to load audio: Audio too short: minimum 0.5 seconds required'')
       \<and> (real (length audio) < real TARGET_SAMPLE_RATE * 0.5 \<longrightarrow>
            (\<exists>m. load_and_preprocess env file_path = Inl (Exn AudioDownloadError m))
            \<and> (download_audio env url w = (Inr file_path, w1) \<longrightarrow>
                  (\<exists>m. process_audio_from_url env url w
                         = (Inl (Exn AudioDownloadError m), cleanup file_path w1))))"
  using assms
  by (auto simp: load_and_preprocess_def load_body_def process_audio_from_url_def)

theorem load_and_preprocess_too_short_witness:
  "load_and_preprocess (ex_env [Chunk 4096] (replicate 3200 (1 / 10))) ex_path
     = Inl (Exn AudioDownloadError
         ''Failed to load audio: Audio too short: minimum 0.5 seconds required'')
   \<and> load_and_preprocess (ex_env [Chunk 4096] []) ex_path
     = Inl (Exn AudioDownloadError ''Failed to load audio: Audio file is empty or corrupted'')
   \<and> (\<exists>m. process_audio_from_url (ex_env [Chunk 4096] (replicate 3200 (1 / 10))) ex_url ex_world
            = (Inl (Exn AudioDownloadError m), \<lparr>files = (\<lambda>p. None), fetched = [ex_url]\<rparr>))"
proof -
  have l1: "librosa_load (ex_env [Chunk 4096] (replicate 3200 (1 / 10))) ex_path
              = Inr (replicate 3200 (1 / 10))"
    by (simp add: ex_env_def)
  have l2: "librosa_load (ex_env [Chunk 4096] []) ex_path = Inr []"
    by (simp add: ex_env_def)
  have c: "cleanup ex_path \<lparr>files = [ex_path \<mapsto> 4096], fetched = [ex_url]\<rparr>
             = \<lparr>files = (\<lambda>p. None), fetched = [ex_url]\<rparr>"
    by (simp add: cleanup_def os_remove_def)
  have a: "load_and_preprocess (ex_env [Chunk 4096] (replicate 3200 (1 / 10))) ex_path
     = Inl (Exn AudioDownloadError
         ''Failed to load audio: Audio too short: minimum 0.5 seconds required'')"
    using load_and_preprocess_too_short[OF l1, of ex_url ex_world]
    by (simp add: TARGET_SAMPLE_RATE_def)
  have b: "load_and_preprocess (ex_env [Chunk 4096] []) ex_path
     = Inl (Exn AudioDownloadError ''Failed to load audio: Audio file is empty or corrupted'')"
    using load_and_preprocess_too_short[OF l2, of ex_url ex_world] by simp
  have d: "\<exists>m. process_audio_from_url (ex_env [Chunk 4096] (replicate 3200 (1 / 10))) ex_url ex_world
            = (Inl (Exn AudioDownloadError m), \<lparr>files = (\<lambda>p. None), fetched = [ex_url]\<rparr>)"
    using load_and_preprocess_too_short[OF l1, of ex_url ex_world
        "\<lparr>files = [ex_path \<mapsto> 4096], fetched = [ex_url]\<rparr>"]
    by (simp add: TARGET_SAMPLE_RATE_def ex_download c)
  show ?thesis using a b d by blast
qed

subsection \<open>C8: peak normalization\<close>

text \<open>
  Claim C8 (peak normalization). \<open>_normalize_audio\<close> never divides by zero: its
  only failure is the \<open>ValueError\<close> of \<open>max\<close> on an empty array, which a
  waveform (non-empty by the data model, and checked by \<open>load_and_preprocess\<close>
  before the call) never is. On a non-empty waveform it returns: the input itself
  when every sample is zero, and otherwise every sample divided by the maximum
  absolute value, which is positive, so that every output sample lies in [-1, 1].
  \<open>extract_features\<close> on an all-zero waveform returns a vector whenever librosa
  returns matrices of its documented shape; the repository's own code adds no
  division there.
\<close>

theorem normalize_audio_guarded:
  "(\<forall>e. normalize_audio audio = Inl e \<longrightarrow> audio = [] \<and> exn_class e = ValueError)
   \<and> (audio \<noteq> [] \<longrightarrow>
        (\<exists>out. normalize_audio audio = Inr out
           \<and> length out = length audio
           \<and> ((\<forall>x\<in>set audio. x = 0) \<longrightarrow> out = audio)
           \<and> ((\<exists>x\<in>set audio. x \<noteq> 0) \<longrightarrow>
                 0 < Max (set (map abs audio))
                 \<and> out = map (\<lambda>x. x / Max (set (map abs audio))) audio
                 \<and> (\<forall>y\<in>set out. - 1 \<le> y \<and> y \<le> 1))))
   \<and> ((\<forall>x\<in>set audio. x = 0) \<and> librosa_shapes fe lib audio sr \<longrightarrow>
        (\<exists>v. extract_features fe lib audio sr = Inr v))"
proof -
  have p1: "\<forall>e. normalize_audio audio = Inl e \<longrightarrow> audio = [] \<and> exn_class e = ValueError"
    using normalize_error_only_empty by blast
  have p2: "\<exists>out. normalize_audio audio = Inr out
           \<and> length out = length audio
           \<and> ((\<forall>x\<in>set audio. x = 0) \<longrightarrow> out = audio)
           \<and> ((\<exists>x\<in>set audio. x \<noteq> 0) \<longrightarrow>
                 0 < Max (set (map abs audio))
                 \<and> out = map (\<lambda>x. x / Max (set (map abs audio))) audio
                 \<and> (\<forall>y\<in>set out. - 1 \<le> y \<and> y \<le> 1))" if ne: "audio \<noteq> []"
  proof (cases "\<exists>x\<in>set audio. x \<noteq> 0")
    case True
    let ?out = "map (\<lambda>x. x / Max (set (map abs audio))) audio"
    have n: "normalize_audio audio = Inr ?out" using normalize_nonempty[OF ne] True by simp
    have pos: "0 < Max (set (map abs audio))" using max_abs_pos_iff[OF ne] True by simp
    have rng: "\<forall>y\<in>set ?out. - 1 \<le> y \<and> y \<le> 1"
      using normalized_in_range[OF _ pos] by auto
    show ?thesis using n pos rng True by auto
  next
    case False
    then have "normalize_audio audio = Inr audio" using normalize_nonempty[OF ne] by simp
    then show ?thesis using False by auto
  qed
  have p3: "\<exists>v. extract_features fe lib audio sr = Inr v"
    if a: "(\<forall>x\<in>set audio. x = 0) \<and> librosa_shapes fe lib audio sr"
  proof -
    have "frames_ok (Suc (length audio div hop_length fe)) (all_rows fe lib audio sr)"
      using a by (simp add: librosa_shapes_def)
    then show ?thesis using extract_features_eq by blast
  qed
  show ?thesis using p1 p2 p3 by blast
qed

theorem normalize_audio_guarded_witness:
  "normalize_audio [0, 0, 0] = Inr [0, 0, 0]
   \<and> normalize_audio [1 / 2, - 1 / 4, 0] = Inr [1, - 1 / 2, 0]
   \<and> (\<exists>v. extract_features default_extractor ex_lib [0, 0, 0] 16000 = Inr v)"
proof -
  have z: "\<forall>x\<in>set [0, 0, 0 :: real]. x = 0" by simp
  have a: "normalize_audio [0, 0, 0] = Inr [0, 0, 0]"
    using normalize_audio_guarded[of "[0, 0, 0]" default_extractor ex_lib 16000] z by auto
  have mx: "Max (set (map abs [1 / 2, - 1 / 4, 0 :: real])) = 1 / 2" by simp
  have nz: "\<exists>x\<in>set [1 / 2, - 1 / 4, 0 :: real]. x \<noteq> 0" by simp
  have "\<exists>out. normalize_audio [1 / 2, - 1 / 4, 0] = Inr out
          \<and> out = map (\<lambda>x. x / Max (set (map abs [1 / 2, - 1 / 4, 0 :: real]))) [1 / 2, - 1 / 4, 0]"
    using normalize_audio_guarded[of "[1 / 2, - 1 / 4, 0]" default_extractor ex_lib 16000] nz
    by auto
  then have b: "normalize_audio [1 / 2, - 1 / 4, 0] = Inr [1, - 1 / 2, 0]"
    unfolding mx by simp
  have c: "\<exists>v. extract_features default_extractor ex_lib [0, 0, 0] 16000 = Inr v"
    using normalize_audio_guarded[of "[0, 0, 0]" default_extractor ex_lib 16000] z ex_shapes
    by blast
  show ?thesis using a b c by blast
qed

subsection \<open>C9: the scheme check of the download\<close>

lemma validate_upper_scheme: "validate_url ''HTTP://example.com/a.mp3'' = Inr True"
  by code_simp

lemma parse_upper_scheme: "urlparse ''HTTP://example.com/a.mp3'' = Inr (''http'', ''example.com'')"
  by code_simp

text \<open>
  Claim C9 (the scheme check of \<open>download_audio\<close> is a literal prefix test).
  Every URL that does not begin with the exact string "http://" or "https://" is
  rejected by \<open>download_audio\<close> with \<open>AudioDownloadError\<close>, before any request and
  with the world unchanged. "HTTP://example.com/a.mp3" is such a URL, although
  \<open>urlparse\<close> gives it the scheme "http" and \<open>validate_url\<close> accepts it.
\<close>

theorem download_scheme_check_is_literal:
  "((\<nexists>r. url = ''http://'' @ r) \<and> (\<nexists>r. url = ''https://'' @ r) \<longrightarrow>
      download_audio env url w
        = (Inl (Exn AudioDownloadError ''Invalid URL: must use http or https protocol''), w))
   \<and> urlparse ''HTTP://example.com/a.mp3'' = Inr (''http'', ''example.com'')
   \<and> validate_url ''HTTP://example.com/a.mp3'' = Inr True
   \<and> download_audio env ''HTTP://example.com/a.mp3'' w
        = (Inl (Exn AudioDownloadError ''Invalid URL: must use http or https protocol''), w)"
proof -
  have a: "download_audio env url w
        = (Inl (Exn AudioDownloadError ''Invalid URL: must use http or https protocol''), w)"
    if "(\<nexists>r. url = ''http://'' @ r) \<and> (\<nexists>r. url = ''https://'' @ r)"
    using that by (simp add: download_audio_def startswith_iff)
  have b: "download_audio env ''HTTP://example.com/a.mp3'' w
        = (Inl (Exn AudioDownloadError ''Invalid URL: must use http or https protocol''), w)"
    by (simp add: download_audio_def)
  show ?thesis using a b validate_upper_scheme parse_upper_scheme by blast
qed

theorem download_scheme_check_is_literal_witness:
  "download_audio (ex_env [Chunk 4096] []) ''Http://example.com/a.mp3'' ex_world
     = (Inl (Exn AudioDownloadError ''Invalid URL: must use http or https protocol''), ex_world)
   \<and> download_audio (ex_env [Chunk 4096] []) ''HTTP://example.com/a.mp3'' ex_world
     = (Inl (Exn AudioDownloadError ''Invalid URL: must use http or https protocol''), ex_world)"
proof -
  have n: "(\<nexists>r. ''Http://example.com/a.mp3'' = ''http://'' @ r)
           \<and> (\<nexists>r. ''Http://example.com/a.mp3'' = ''https://'' @ r)"
    by simp
  show ?thesis
    using download_scheme_check_is_literal[of "''Http://example.com/a.mp3''"
        "ex_env [Chunk 4096] []" ex_world] n
    by blast
qed

subsection \<open>C10: the blocklist\<close>

lemma pattern_hit:
  assumes "pat \<in> set dangerous_patterns" and "py_lower url = a @ pat @ b"
  shows "list_ex (\<lambda>p. str_in p (py_lower url)) dangerous_patterns"
  unfolding list_ex_iff using assms str_in_iff by blast

lemma validate_with_blocked:
  assumes "pat \<in> set dangerous_patterns" and "py_lower url = a @ pat @ b"
  shows "\<exists>m. validate_url_with parse url = Inl (Exn ValidationError m)"
  using pattern_hit[OF assms]
  by (cases "check_url_format parse url") (simp_all add: validate_url_with_def)

lemma validate_with_blocked_security:
  assumes "pat \<in> set dangerous_patterns" and "py_lower url = a @ pat @ b"
    and "check_url_format parse url = Inr ()"
  shows "validate_url_with parse url
           = Inl (Exn ValidationError ''Security: Cannot access local/internal resources'')"
proof -
  have "url \<noteq> []" using assms(1,2) by (auto simp: py_lower_def dangerous_patterns_def)
  then show ?thesis using pattern_hit[OF assms(1,2)] assms(3)
    by (simp add: validate_url_with_def)
qed

lemma parse_public_v10: "urlparse ''https://example.com/v10.mp3'' = Inr (''https'', ''example.com'')"
  by code_simp

lemma validate_public_v10:
  "validate_url ''https://example.com/v10.mp3''
     = Inl (Exn ValidationError ''Security: Cannot access local/internal resources'')"
  by code_simp

lemma validate_public_v1: "validate_url ''https://example.com/v1.mp3'' = Inr True"
  by code_simp

text \<open>
  Claim C10 (the blocklist is a substring match over the whole URL). Whatever the
  parser returns, \<open>validate_url\<close> raises \<open>ValidationError\<close> for every URL whose
  lowercased text contains "10.", "172.16." or "192.168." anywhere; when the URL
  passes the format checks the error is the blocklist's own ("Security: ...").
  "https://example.com/v10.mp3" has the public host example.com and is rejected
  for the "10." in its file name, while "https://example.com/v1.mp3" is accepted.
\<close>

theorem blocklist_is_substring_match:
  "((pat = ''10.'' \<or> pat = ''172.16.'' \<or> pat = ''192.168.'') \<and> py_lower url = a @ pat @ b \<longrightarrow>
      (\<exists>m. validate_url_with parse url = Inl (Exn ValidationError m))
      \<and> (\<exists>m. validate_url url = Inl (Exn ValidationError m))
      \<and> (check_url_format parse url = Inr () \<longrightarrow>
            validate_url_with parse url
              = Inl (Exn ValidationError ''Security: Cannot access local/internal resources'')))
   \<and> urlparse ''https://example.com/v10.mp3'' = Inr (''https'', ''example.com'')
   \<and> validate_url ''https://example.com/v10.mp3''
        = Inl (Exn ValidationError ''Security: Cannot access local/internal resources'')
   \<and> validate_url ''https://example.com/v1.mp3'' = Inr True"
proof -
  have p: "pat \<in> set dangerous_patterns"
    if "pat = ''10.'' \<or> pat = ''172.16.'' \<or> pat = ''192.168.''"
    using that by (auto simp: dangerous_patterns_def)
  have g: "(\<exists>m. validate_url_with parse url = Inl (Exn ValidationError m))
      \<and> (\<exists>m. validate_url url = Inl (Exn ValidationError m))
      \<and> (check_url_format parse url = Inr () \<longrightarrow>
            validate_url_with parse url
              = Inl (Exn ValidationError ''Security: Cannot access local/internal resources''))"
    if h: "(pat = ''10.'' \<or> pat = ''172.16.'' \<or> pat = ''192.168.'') \<and> py_lower url = a @ pat @ b"
  proof -
    have m: "pat \<in> set dangerous_patterns" using h p by blast
    have l: "py_lower url = a @ pat @ b" using h by blast
    show ?thesis
      using validate_with_blocked[OF m l, of parse] validate_with_blocked[OF m l, of urlparse]
        validate_with_blocked_security[OF m l, of parse]
      by (simp add: validate_url_def)
  qed
  show ?thesis using g parse_public_v10 validate_public_v10 validate_public_v1 by blast
qed

theorem blocklist_is_substring_match_witness:
  "(\<exists>m. validate_url ''https://example.com/v10.mp3'' = Inl (Exn ValidationError m))
   \<and> (\<exists>m. validate_url ''https://cdn.example.com/audio/172.16.wav'' = Inl (Exn ValidationError m))"
proof -
  have l1: "py_lower ''https://example.com/v10.mp3'' = ''https://example.com/v'' @ ''10.'' @ ''mp3''"
    by code_simp
  have l2: "py_lower ''https://cdn.example.com/audio/172.16.wav''
              = ''https://cdn.example.com/audio/'' @ ''172.16.'' @ ''wav''"
    by code_simp
  have a: "\<exists>m. validate_url ''https://example.com/v10.mp3'' = Inl (Exn ValidationError m)"
    using blocklist_is_substring_match[of "''10.''" "''https://example.com/v10.mp3''"
        "''https://example.com/v''" "''mp3''" urlparse] l1
    by blast
  have b: "\<exists>m. validate_url ''https://cdn.example.com/audio/172.16.wav'' = Inl (Exn ValidationError m)"
    using blocklist_is_substring_match[of "''172.16.''" "''https://cdn.example.com/audio/172.16.wav''"
        "''https://cdn.example.com/audio/''" "''wav''" urlparse] l2
    by blast
  show ?thesis using a b by blast
qed

end
